theory Spec2Isabelle
  imports Complex_Main "HOL-Library.AList"
begin

section \<open>Python values used by the polling scripts\<close>

text \<open>
  The scripts keep every counter as the decimal string the device returned and convert with
  \<^verbatim>\<open>int(...)\<close> and \<^verbatim>\<open>str(...)\<close> only where they compute. Python integers are
  unbounded, so they are \<^typ>\<open>int\<close>. Wall-clock readings (\<^verbatim>\<open>time.time()\<close>) are Python floats,
  that is IEEE binary64 numbers: a float is the real number it denotes, and every float
  operation returns its exact result rounded to the nearest double.
\<close>

datatype exn =
    KeyError string
  | ValueError
  | TypeError
  | IndexError
  | OverflowError
  | ZeroDivisionError
  | EasySNMPError
  | ExpatError
  | OtherException

type_synonym dict = "(string \<times> string) list"

definition dict_item :: "dict \<Rightarrow> string \<Rightarrow> exn + string" where
  \<comment> \<open>\<^verbatim>\<open>d[k]\<close>: raises KeyError on a missing key\<close>
  "dict_item d k = (case map_of d k of None \<Rightarrow> Inl (KeyError k) | Some v \<Rightarrow> Inr v)"

definition dict_set :: "dict \<Rightarrow> string \<Rightarrow> string \<Rightarrow> dict" where
  \<comment> \<open>\<^verbatim>\<open>d[k] = v\<close>\<close>
  "dict_set d k v = AList.update k v d"

definition dict_truthy :: "dict \<Rightarrow> bool" where
  \<comment> \<open>an empty dict is false in a condition\<close>
  "dict_truthy d = (d \<noteq> [])"

definition float_truthy :: "real option \<Rightarrow> bool" where
  \<comment> \<open>\<^verbatim>\<open>None\<close> and \<^verbatim>\<open>0.0\<close> are false in a condition\<close>
  "float_truthy t = (case t of None \<Rightarrow> False | Some x \<Rightarrow> x \<noteq> 0)"

subsection \<open>\<^verbatim>\<open>str(n)\<close> and \<^verbatim>\<open>int(s)\<close>\<close>

text \<open>
  \<^verbatim>\<open>int(s)\<close> strips surrounding whitespace, takes an optional sign and then decimal digits
  with single underscores between them. Characters are bytes here, so digits and spaces
  outside ASCII are not covered, nor is the interpreter's limit on the length of a converted
  number.
\<close>

definition digit_char :: "nat \<Rightarrow> char" where
  "digit_char d = ''0123456789'' ! d"

fun nat_digits :: "nat \<Rightarrow> string" where
  "nat_digits n = (if n < 10 then [digit_char n] else nat_digits (n div 10) @ [digit_char (n mod 10)])"

declare nat_digits.simps [simp del]

definition py_str :: "int \<Rightarrow> string" where
  "py_str n = (if n < 0 then CHR ''-'' # nat_digits (nat (- n)) else nat_digits (nat n))"

definition is_digit :: "char \<Rightarrow> bool" where
  "is_digit c = (c \<in> set ''0123456789'')"

definition digit_val :: "char \<Rightarrow> nat" where
  "digit_val c = of_char c - 48"

definition is_space :: "char \<Rightarrow> bool" where
  \<comment> \<open>the ASCII characters \<^verbatim>\<open>int()\<close> strips: space, tab, LF, VT, FF, CR, FS, GS, RS, US\<close>
  "is_space c = (c \<in> set [CHR '' '', CHR 0x09, CHR 0x0A, CHR 0x0B, CHR 0x0C, CHR 0x0D,
                            CHR 0x1C, CHR 0x1D, CHR 0x1E, CHR 0x1F])"

definition strip :: "string \<Rightarrow> string" where
  "strip s = rev (dropWhile is_space (rev (dropWhile is_space s)))"

fun dec_digits :: "nat \<Rightarrow> string \<Rightarrow> nat option" where
  \<comment> \<open>the digits after the first one; a single underscore may sit between two digits\<close>
  "dec_digits acc [] = Some acc"
| "dec_digits acc (c # cs) =
     (if c = CHR ''_'' then
        (case cs of [] \<Rightarrow> None
         | d # ds \<Rightarrow> if is_digit d then dec_digits (acc * 10 + digit_val d) ds else None)
      else if is_digit c then dec_digits (acc * 10 + digit_val c) cs
      else None)"

definition dec_number :: "string \<Rightarrow> nat option" where
  "dec_number s = (case s of [] \<Rightarrow> None
                   | c # cs \<Rightarrow> if is_digit c then dec_digits (digit_val c) cs else None)"

definition py_int :: "string \<Rightarrow> int option" where
  \<comment> \<open>\<^verbatim>\<open>int(s)\<close> on a string, base 10; \<^const>\<open>None\<close> stands for ValueError\<close>
  "py_int s = (case strip s of [] \<Rightarrow> None
               | c # cs \<Rightarrow> if c = CHR ''-'' then map_option (\<lambda>n. - int n) (dec_number cs)
                          else if c = CHR ''+'' then map_option int (dec_number cs)
                          else map_option int (dec_number (c # cs)))"

definition int_of_str :: "string \<Rightarrow> exn + int" where
  "int_of_str s = (case py_int s of None \<Rightarrow> Inl ValueError | Some n \<Rightarrow> Inr n)"

definition int_get :: "dict \<Rightarrow> string \<Rightarrow> exn + int" where
  \<comment> \<open>\<^verbatim>\<open>int(d.get(k, 0))\<close>\<close>
  "int_get d k = (case map_of d k of None \<Rightarrow> Inr 0 | Some v \<Rightarrow> int_of_str v)"

definition py_trunc :: "real \<Rightarrow> int" where
  \<comment> \<open>\<^verbatim>\<open>int(x)\<close> on a finite float: rounds toward zero\<close>
  "py_trunc q = (if 0 \<le> q then \<lfloor>q\<rfloor> else - \<lfloor>- q\<rfloor>)"

subsection \<open>Double-precision arithmetic\<close>

text \<open>
  A double has a significand of 53 bits and a binary exponent from \<open>-1074\<close> (the unit of
  the subnormal numbers) upwards. \<open>round_double\<close> rounds a real number to the nearest such
  number, ties to the even significand, as the hardware does for \<^verbatim>\<open>-\<close>, \<^verbatim>\<open>*\<close> and \<^verbatim>\<open>/\<close> and
  as the interpreter does when it converts an \<^verbatim>\<open>int\<close> to a \<^verbatim>\<open>float\<close>. A result whose rounded
  magnitude reaches \<open>2^1024\<close> is outside the doubles: converting such an \<^verbatim>\<open>int\<close> raises
  OverflowError, and such a quotient is infinite, on which \<^verbatim>\<open>int()\<close> raises OverflowError.
  Clock readings are seconds since 1970: their differences and their products with \<^verbatim>\<open>1e9\<close>
  stay far below \<open>2^1024\<close>, and no overflow is modelled for them.
\<close>

fun bit_length :: "nat \<Rightarrow> nat" where
  \<comment> \<open>the number of binary digits of \<open>n\<close>\<close>
  "bit_length n = (if n = 0 then 0 else Suc (bit_length (n div 2)))"

declare bit_length.simps [simp del]

definition pow2 :: "int \<Rightarrow> real" where
  "pow2 k = (if 0 \<le> k then 2 ^ nat k else 1 / 2 ^ nat (- k))"

definition binary_exponent :: "real \<Rightarrow> int" where
  \<comment> \<open>for \<open>x > 0\<close>: the \<open>e\<close> with \<open>2^e \<le> x < 2^(e+1)\<close>\<close>
  "binary_exponent x =
     (if 1 \<le> x then int (bit_length (nat \<lfloor>x\<rfloor>)) - 1
      else - int (bit_length (nat (\<lceil>1 / x\<rceil> - 1))))"

definition round_half_even :: "real \<Rightarrow> int" where
  "round_half_even x =
     (let f = \<lfloor>x\<rfloor>; d = x - of_int f
      in if d < 1 / 2 then f else if 1 / 2 < d then f + 1 else if even f then f else f + 1)"

definition round_double :: "real \<Rightarrow> real" where
  "round_double x =
     (if x = 0 then 0
      else (let k = max (binary_exponent \<bar>x\<bar> - 52) (- 1074)
            in sgn x * of_int (round_half_even (\<bar>x\<bar> / pow2 k)) * pow2 k))"

definition overflows :: "real \<Rightarrow> bool" where
  "overflows x = (2 ^ 1024 \<le> \<bar>round_double x\<bar>)"

definition float_sub :: "real \<Rightarrow> real \<Rightarrow> real" where
  \<comment> \<open>\<^verbatim>\<open>a - b\<close> on two clock readings\<close>
  "float_sub a b = round_double (a - b)"

definition float_mul :: "real \<Rightarrow> real \<Rightarrow> real" where
  \<comment> \<open>\<^verbatim>\<open>a * b\<close> on a clock reading and a constant\<close>
  "float_mul a b = round_double (a * b)"

definition int_to_float :: "int \<Rightarrow> exn + real" where
  \<comment> \<open>the conversion of the \<^verbatim>\<open>int\<close> operand of a mixed operation\<close>
  "int_to_float n =
     (if overflows (of_int n) then Inl OverflowError else Inr (round_double (of_int n)))"

definition nanos :: "real \<Rightarrow> int" where
  \<comment> \<open>\<^verbatim>\<open>int(timestamp * 1e9)\<close>\<close>
  "nanos timestamp = py_trunc (float_mul timestamp 1000000000)"


section \<open>JSON values handed to the output sink\<close>

text \<open>
  \<^verbatim>\<open>format_output\<close> builds a tree of Python dicts, lists, strings and integers that
  \<^verbatim>\<open>json.dump\<close> writes as one line. The tree is the model of the written line.
\<close>

datatype json =
    JNull
  | JString string
  | JNumber int
  | JArray "json list"
  | JObject "(string \<times> json) list"

definition json_field :: "json \<Rightarrow> string \<Rightarrow> json option" where
  "json_field j k = (case j of JObject kvs \<Rightarrow> map_of kvs k | _ \<Rightarrow> None)"

definition json_strings :: "dict \<Rightarrow> json" where
  \<comment> \<open>a dict whose values are Python strings\<close>
  "json_strings d = JObject (map (\<lambda>(k, v). (k, JString v)) d)"

section \<open>The SNMP monitor (\<^verbatim>\<open>if-stats-snmp-v2.py\<close>)\<close>

record snmp_monitor =
  target :: string
  interface_index :: int
  prev_stats :: dict
  prev_timestamp :: "real option"

text \<open>
  The device session is external. One call \<^verbatim>\<open>session.get(oid)\<close> either returns a variable
  with a \<^verbatim>\<open>value\<close> string or raises; a session is the answer it gives for each OID during
  one poll cycle.
\<close>

datatype get_outcome = Returns string | Raises exn

type_synonym session = "string \<Rightarrow> get_outcome"

definition make_oid :: "string \<Rightarrow> int \<Rightarrow> string" where
  \<comment> \<open>\<^verbatim>\<open>f"{oid_base}.{self.interface_index}"\<close>\<close>
  "make_oid oid_base idx = oid_base @ ''.'' @ py_str idx"

definition get_snmp_value :: "snmp_monitor \<Rightarrow> session \<Rightarrow> string \<Rightarrow> exn + string" where
  \<comment> \<open>v2: \<^verbatim>\<open>except EasySNMPError: pass\<close>, \<^verbatim>\<open>except Exception: print\<close>, then \<^verbatim>\<open>return "0"\<close>\<close>
  "get_snmp_value self sess oid_base =
     (case sess (make_oid oid_base (interface_index self)) of
        Returns v \<Rightarrow> if v \<noteq> ''NOSUCHINSTANCE'' then Inr v else Inr ''0''
      | Raises EasySNMPError \<Rightarrow> Inr ''0''
      | Raises e \<Rightarrow> Inr ''0'')"

definition get_snmp_value_v3 :: "snmp_monitor \<Rightarrow> session \<Rightarrow> string \<Rightarrow> exn + string" where
  \<comment> \<open>\<^verbatim>\<open>if-stats-snmp-v3.py\<close>: only \<^verbatim>\<open>except EasySNMPError: pass\<close>\<close>
  "get_snmp_value_v3 self sess oid_base =
     (case sess (make_oid oid_base (interface_index self)) of
        Returns v \<Rightarrow> if v \<notin> {''NOSUCHINSTANCE'', ''NOSUCHOBJECT''} then Inr v else Inr ''0''
      | Raises EasySNMPError \<Rightarrow> Inr ''0''
      | Raises e \<Rightarrow> Inl e)"

text \<open>
  The assignments \<^verbatim>\<open>stats[k] = self.get_snmp_value(oid)\<close> of one branch, in source order.
  The list \<open>asked\<close> holds the OID bases requested from the session, oldest first.
\<close>

fun read_counters ::
  "snmp_monitor \<Rightarrow> session \<Rightarrow> (string \<times> string) list \<Rightarrow> dict \<Rightarrow> string list
     \<Rightarrow> (exn + dict) \<times> string list" where
  "read_counters self sess [] stats asked = (Inr stats, asked)"
| "read_counters self sess ((k, oid) # rest) stats asked =
     (case get_snmp_value self sess oid of
        Inl e \<Rightarrow> (Inl e, asked @ [oid])
      | Inr v \<Rightarrow> read_counters self sess rest (dict_set stats k v) (asked @ [oid]))"

definition ifHCInOctets :: string where "ifHCInOctets = ''.1.3.6.1.2.1.31.1.1.1.6''"
definition ifHCOutOctets :: string where "ifHCOutOctets = ''.1.3.6.1.2.1.31.1.1.1.10''"

definition hc_packet_oids :: "(string \<times> string) list" where
  "hc_packet_oids =
     [(''in-unicast-packets'', ''.1.3.6.1.2.1.31.1.1.1.7''),
      (''in-multicast-packets'', ''.1.3.6.1.2.1.31.1.1.1.8''),
      (''in-broadcast-packets'', ''.1.3.6.1.2.1.31.1.1.1.9''),
      (''out-unicast-packets'', ''.1.3.6.1.2.1.31.1.1.1.11''),
      (''out-multicast-packets'', ''.1.3.6.1.2.1.31.1.1.1.12''),
      (''out-broadcast-packets'', ''.1.3.6.1.2.1.31.1.1.1.13'')]"

definition legacy_oids :: "(string \<times> string) list" where
  "legacy_oids =
     [(''in-octets'', ''.1.3.6.1.2.1.2.2.1.10''),
      (''out-octets'', ''.1.3.6.1.2.1.2.2.1.16''),
      (''in-unicast-packets'', ''.1.3.6.1.2.1.2.2.1.11''),
      (''in-multicast-packets'', ''.1.3.6.1.2.1.2.2.1.12''),
      (''in-broadcast-packets'', ''.1.3.6.1.2.1.2.2.1.13''),
      (''out-unicast-packets'', ''.1.3.6.1.2.1.2.2.1.17''),
      (''out-multicast-packets'', ''.1.3.6.1.2.1.2.2.1.18''),
      (''out-broadcast-packets'', ''.1.3.6.1.2.1.2.2.1.19'')]"

definition packet_total :: "dict \<Rightarrow> string \<Rightarrow> string \<Rightarrow> string \<Rightarrow> exn + string" where
  \<comment> \<open>\<^verbatim>\<open>str(int(stats.get(a, 0)) + int(stats.get(b, 0)) + int(stats.get(c, 0)))\<close>\<close>
  "packet_total stats a b c =
     (case int_get stats a of Inl e \<Rightarrow> Inl e | Inr x \<Rightarrow>
      (case int_get stats b of Inl e \<Rightarrow> Inl e | Inr y \<Rightarrow>
       (case int_get stats c of Inl e \<Rightarrow> Inl e | Inr z \<Rightarrow> Inr (py_str (x + y + z)))))"

definition add_totals :: "dict \<Rightarrow> exn + dict" where
  "add_totals stats =
     (case packet_total stats ''in-unicast-packets'' ''in-multicast-packets''
             ''in-broadcast-packets'' of
        Inl e \<Rightarrow> Inl e
      | Inr i \<Rightarrow>
         (let stats1 = dict_set stats ''in-packets'' i in
          case packet_total stats1 ''out-unicast-packets'' ''out-multicast-packets''
                 ''out-broadcast-packets'' of
            Inl e \<Rightarrow> Inl e
          | Inr out \<Rightarrow> Inr (dict_set stats1 ''out-packets'' out)))"

definition get_interface_stats :: "snmp_monitor \<Rightarrow> session \<Rightarrow> (exn + dict) \<times> string list" where
  "get_interface_stats self sess =
     (case get_snmp_value self sess ifHCInOctets of
        Inl e \<Rightarrow> (Inl e, [ifHCInOctets])
      | Inr hc_in_octets \<Rightarrow>
         (case get_snmp_value self sess ifHCOutOctets of
            Inl e \<Rightarrow> (Inl e, [ifHCInOctets, ifHCOutOctets])
          | Inr hc_out_octets \<Rightarrow>
             (let (fetched, asked) =
                (if hc_in_octets \<noteq> ''0'' \<or> hc_out_octets \<noteq> ''0'' then
                   read_counters self sess hc_packet_oids
                     [(''in-octets'', hc_in_octets), (''out-octets'', hc_out_octets)]
                     [ifHCInOctets, ifHCOutOctets]
                 else
                   read_counters self sess legacy_oids [] [ifHCInOctets, ifHCOutOctets])
              in case fetched of
                   Inl e \<Rightarrow> (Inl e, asked)
                 | Inr stats \<Rightarrow> (add_totals stats, asked))))"

subsection \<open>Rate calculation\<close>

definition octet_diff :: "dict \<Rightarrow> dict \<Rightarrow> string \<Rightarrow> exn + int" where
  \<comment> \<open>\<^verbatim>\<open>int(current_stats[k]) - int(self.prev_stats[k])\<close>, left operand first\<close>
  "octet_diff cur prev k =
     (case dict_item cur k of Inl e \<Rightarrow> Inl e | Inr a \<Rightarrow>
      (case int_of_str a of Inl e \<Rightarrow> Inl e | Inr x \<Rightarrow>
       (case dict_item prev k of Inl e \<Rightarrow> Inl e | Inr b \<Rightarrow>
        (case int_of_str b of Inl e \<Rightarrow> Inl e | Inr y \<Rightarrow> Inr (x - y)))))"

definition bps :: "int \<Rightarrow> real \<Rightarrow> exn + string" where
  \<comment> \<open>\<^verbatim>\<open>str(int((diff * 8) / delta_t))\<close>: the product is an \<^verbatim>\<open>int\<close>, converted to a float
      for the division by the float \<^verbatim>\<open>delta_t\<close>\<close>
  "bps diff delta_t =
     (case int_to_float (diff * 8) of
        Inl e \<Rightarrow> Inl e
      | Inr a \<Rightarrow>
         if delta_t = 0 then Inl ZeroDivisionError
         else if overflows (a / delta_t) then Inl OverflowError
         else Inr (py_str (py_trunc (round_double (a / delta_t)))))"

definition zero_rate :: dict where
  "zero_rate = [(''in-bps'', ''0''), (''out-bps'', ''0'')]"

definition calculate_traffic_rate ::
  "snmp_monitor \<Rightarrow> dict \<Rightarrow> real \<Rightarrow> exn + (dict option \<times> snmp_monitor)" where
  \<comment> \<open>the returned rate is never Python's \<^verbatim>\<open>None\<close>: every path ends in \<^verbatim>\<open>return rate\<close>\<close>
  "calculate_traffic_rate self current_stats current_time =
     (let rate = zero_rate;
          computed =
            (if dict_truthy (prev_stats self) \<and> float_truthy (prev_timestamp self) then
               (let delta_t = float_sub current_time (the (prev_timestamp self)) in
                if delta_t > 0 then
                  (case octet_diff current_stats (prev_stats self) ''in-octets'' of
                     Inl e \<Rightarrow> Inl e
                   | Inr in_diff \<Rightarrow>
                      (case octet_diff current_stats (prev_stats self) ''out-octets'' of
                         Inl e \<Rightarrow> Inl e
                       | Inr out_diff \<Rightarrow>
                          (case bps in_diff delta_t of
                             Inl e \<Rightarrow> Inl e
                           | Inr in_bps \<Rightarrow>
                              (case bps out_diff delta_t of
                                 Inl e \<Rightarrow> Inl e
                               | Inr out_bps \<Rightarrow>
                                  Inr (dict_set (dict_set rate ''in-bps'' in_bps)
                                         ''out-bps'' out_bps)))))
                else Inr rate)
             else Inr rate)
      in case computed of
           Inl e \<Rightarrow> Inl e
         | Inr rate' \<Rightarrow>
            Inr (Some rate',
                 self\<lparr>prev_stats := current_stats, prev_timestamp := Some current_time\<rparr>))"

subsection \<open>Envelope and poll loop\<close>

definition format_output ::
  "(real \<Rightarrow> string) \<Rightarrow> snmp_monitor \<Rightarrow> string \<Rightarrow> dict \<Rightarrow> real \<Rightarrow> json" where
  \<comment> \<open>\<^verbatim>\<open>isoformat\<close> stands for \<^verbatim>\<open>datetime.fromtimestamp(ts, timezone.utc).isoformat()\<close>\<close>
  "format_output isoformat self stats_type data timestamp =
     JObject
      [(''source'', JString (target self)),
       (''subscription-name'', JString ''snmp-if-stats''),
       (''timestamp'', JNumber (nanos timestamp)),
       (''time'', JString (isoformat timestamp)),
       (''updates'', JArray
          [JObject
            [(''Path'', JString (''IF-MIB:interface[index='' @ py_str (interface_index self)
                                   @ '']/'' @ stats_type)),
             (''values'', JObject [(''IF-MIB:interface/'' @ stats_type, json_strings data)])]])]"



subsection \<open>Reading a written record\<close>



definition reported :: "json \<Rightarrow> string \<Rightarrow> string \<Rightarrow> json option" where
  \<comment> \<open>the field of a metric block, read from the first update of a record\<close>
  "reported j block field =
     (case json_field j ''updates'' of
        Some (JArray (u # us)) \<Rightarrow>
          (case json_field u ''values'' of
             Some vs \<Rightarrow> (case json_field vs block of Some b \<Rightarrow> json_field b field | None \<Rightarrow> None)
           | None \<Rightarrow> None)
      | _ \<Rightarrow> None)"


section \<open>The NETCONF monitor (\<^verbatim>\<open>if-stats-netconf-v2.py\<close>)\<close>

text \<open>
  A reply is parsed with \<^verbatim>\<open>xml.dom.minidom\<close>. The model keeps of a DOM node what the
  parsers read: namespace, local name and children of an element, and the data of a text node.
  \<^verbatim>\<open>val(tag)\<close> can return Python's \<^verbatim>\<open>None\<close> (the \<^verbatim>\<open>nodeValue\<close> of an element), so the values
  of these dicts are optional strings.
\<close>

datatype xml = Element string string "xml list" | Text string

type_synonym ncdict = "(string \<times> string option) list"

fun elements_by_tag :: "string \<Rightarrow> string \<Rightarrow> xml \<Rightarrow> xml list" where
  \<comment> \<open>the matching elements among a node and its descendants, in document order\<close>
  "elements_by_tag ns tag (Text s) = []"
| "elements_by_tag ns tag (Element n t cs) =
     (if n = ns \<and> t = tag then [Element n t cs] else [])
       @ concat (map (elements_by_tag ns tag) cs)"

definition dom_getElementsByTagNameNS :: "xml \<Rightarrow> string \<Rightarrow> string \<Rightarrow> xml list" where
  \<comment> \<open>on the document: the root element is a candidate\<close>
  "dom_getElementsByTagNameNS doc ns tag = elements_by_tag ns tag doc"

definition getElementsByTagNameNS :: "xml \<Rightarrow> string \<Rightarrow> string \<Rightarrow> xml list" where
  \<comment> \<open>on an element: its descendants only\<close>
  "getElementsByTagNameNS node ns tag =
     (case node of Text s \<Rightarrow> [] | Element n t cs \<Rightarrow> concat (map (elements_by_tag ns tag) cs))"

definition first_item :: "'a list \<Rightarrow> exn + 'a" where
  \<comment> \<open>\<^verbatim>\<open>xs[0]\<close>\<close>
  "first_item xs = (case xs of [] \<Rightarrow> Inl IndexError | x # _ \<Rightarrow> Inr x)"

definition val :: "xml \<Rightarrow> string \<Rightarrow> string \<Rightarrow> string option" where
  \<comment> \<open>\<^verbatim>\<open>elems[0].firstChild.nodeValue if elems and elems[0].firstChild else "0"\<close>\<close>
  "val node ns tag =
     (case getElementsByTagNameNS node ns tag of
        [] \<Rightarrow> Some ''0''
      | Text s # _ \<Rightarrow> Some ''0''
      | Element n t [] # _ \<Rightarrow> Some ''0''
      | Element n t (Text s # _) # _ \<Rightarrow> Some s
      | Element n t (Element n' t' cs # _) # _ \<Rightarrow> None)"

definition int_of_value :: "string option \<Rightarrow> exn + int" where
  \<comment> \<open>\<^verbatim>\<open>int(v)\<close>: TypeError on \<^verbatim>\<open>None\<close>\<close>
  "int_of_value v = (case v of None \<Rightarrow> Inl TypeError | Some s \<Rightarrow> int_of_str s)"

definition nc_item :: "ncdict \<Rightarrow> string \<Rightarrow> exn + string option" where
  "nc_item d k = (case map_of d k of None \<Rightarrow> Inl (KeyError k) | Some v \<Rightarrow> Inr v)"

definition nc_sum3 :: "ncdict \<Rightarrow> string \<Rightarrow> string \<Rightarrow> string \<Rightarrow> exn + string" where
  \<comment> \<open>\<^verbatim>\<open>str(int(stats[a]) + int(stats[b]) + int(stats[c]))\<close>\<close>
  "nc_sum3 stats a b c =
     (case nc_item stats a of Inl e \<Rightarrow> Inl e | Inr va \<Rightarrow>
      (case int_of_value va of Inl e \<Rightarrow> Inl e | Inr x \<Rightarrow>
       (case nc_item stats b of Inl e \<Rightarrow> Inl e | Inr vb \<Rightarrow>
        (case int_of_value vb of Inl e \<Rightarrow> Inl e | Inr y \<Rightarrow>
         (case nc_item stats c of Inl e \<Rightarrow> Inl e | Inr vc \<Rightarrow>
          (case int_of_value vc of Inl e \<Rightarrow> Inl e | Inr z \<Rightarrow> Inr (py_str (x + y + z))))))))"

record netconf_monitor =
  interface :: string
  nc_prev_stats :: ncdict
  prev_time :: "real option"

definition openconfig_ns :: string where
  "openconfig_ns = ''http://openconfig.net/yang/interfaces''"

definition ietf_ns :: string where
  "ietf_ns = ''urn:ietf:params:xml:ns:yang:ietf-interfaces''"

text \<open>
  \<^verbatim>\<open>xml_data\<close> is the reply text, given by what \<^verbatim>\<open>MD.parseString\<close> makes of it: an
  exception or the root element.
\<close>

type_synonym xml_data = "exn + xml"

definition catch_all :: "exn + 'a \<Rightarrow> exn + 'a option" where
  \<comment> \<open>\<^verbatim>\<open>try: return body  except Exception: return None\<close>\<close>
  "catch_all body = (case body of Inl e \<Rightarrow> Inr None | Inr v \<Rightarrow> Inr (Some v))"

definition parse_openconfig_body :: "netconf_monitor \<Rightarrow> xml_data \<Rightarrow> exn + ncdict" where
  "parse_openconfig_body self xml_data =
     (case xml_data of Inl e \<Rightarrow> Inl e | Inr document \<Rightarrow>
      (case first_item (dom_getElementsByTagNameNS document openconfig_ns ''interface'') of
         Inl e \<Rightarrow> Inl e | Inr iface \<Rightarrow>
       (case first_item (getElementsByTagNameNS iface openconfig_ns ''counters'') of
          Inl e \<Rightarrow> Inl e | Inr counters \<Rightarrow>
        (let v = (\<lambda>tag. val counters openconfig_ns tag);
             stats =
               [(''interface-name'', Some (interface self)),
                (''model'', Some ''openconfig''),
                (''in-octets'', v ''in-octets''),
                (''out-octets'', v ''out-octets''),
                (''in-unicast-pkts'', v ''in-unicast-pkts''),
                (''out-unicast-pkts'', v ''out-unicast-pkts''),
                (''in-multicast-pkts'', v ''in-multicast-pkts''),
                (''out-multicast-pkts'', v ''out-multicast-pkts''),
                (''in-broadcast-pkts'', v ''in-broadcast-pkts''),
                (''out-broadcast-pkts'', v ''out-broadcast-pkts''),
                (''in-errors'', v ''in-errors''),
                (''out-errors'', v ''out-errors''),
                (''in-discards'', v ''in-discards''),
                (''out-discards'', v ''out-discards'')]
         in case nc_sum3 stats ''in-unicast-pkts'' ''in-multicast-pkts'' ''in-broadcast-pkts'' of
              Inl e \<Rightarrow> Inl e
            | Inr i \<Rightarrow>
               (let stats1 = AList.update ''in-packets'' (Some i) stats
                in case nc_sum3 stats1 ''out-unicast-pkts'' ''out-multicast-pkts''
                          ''out-broadcast-pkts'' of
                     Inl e \<Rightarrow> Inl e
                   | Inr out \<Rightarrow> Inr (AList.update ''out-packets'' (Some out) stats1))))))"

definition parse_openconfig_stats :: "netconf_monitor \<Rightarrow> xml_data \<Rightarrow> exn + ncdict option" where
  "parse_openconfig_stats self xml_data = catch_all (parse_openconfig_body self xml_data)"

definition parse_ietf_body :: "netconf_monitor \<Rightarrow> xml_data \<Rightarrow> exn + ncdict" where
  "parse_ietf_body self xml_data =
     (case xml_data of Inl e \<Rightarrow> Inl e | Inr document \<Rightarrow>
      (case first_item (dom_getElementsByTagNameNS document ietf_ns ''interface'') of
         Inl e \<Rightarrow> Inl e | Inr iface \<Rightarrow>
         Inr [(''interface-name'', Some (interface self)),
              (''model'', Some ''ietf''),
              (''in-octets'', val iface ietf_ns ''in-octets''),
              (''out-octets'', val iface ietf_ns ''out-octets''),
              (''in-packets'', val iface ietf_ns ''in-unicast-pkts''),
              (''out-packets'', val iface ietf_ns ''out-unicast-pkts'')]))"

definition parse_ietf_stats :: "netconf_monitor \<Rightarrow> xml_data \<Rightarrow> exn + ncdict option" where
  "parse_ietf_stats self xml_data = catch_all (parse_ietf_body self xml_data)"

text \<open>
  The NETCONF session is external: \<^verbatim>\<open>self.manager.get(filter=...)\<close> raises or returns a
  reply carrying \<^verbatim>\<open>data_xml\<close>. The two filters differ in the data model they ask for.
\<close>

datatype filter = OpenConfigFilter string | IetfFilter string

datatype rpc_outcome = RpcRaises exn | RpcReply xml_data

type_synonym manager = "filter \<Rightarrow> rpc_outcome"

definition get_interface_stats_openconfig ::
  "netconf_monitor \<Rightarrow> manager \<Rightarrow> exn + ncdict option" where
  "get_interface_stats_openconfig self mgr =
     (case (case mgr (OpenConfigFilter (interface self)) of
              RpcRaises e \<Rightarrow> Inl e
            | RpcReply data_xml \<Rightarrow> parse_openconfig_stats self data_xml) of
        Inl e \<Rightarrow> Inr None
      | Inr stats \<Rightarrow> Inr stats)"

definition get_interface_stats_ietf ::
  "netconf_monitor \<Rightarrow> manager \<Rightarrow> exn + ncdict option" where
  "get_interface_stats_ietf self mgr =
     (case (case mgr (IetfFilter (interface self)) of
              RpcRaises e \<Rightarrow> Inl e
            | RpcReply data_xml \<Rightarrow> parse_ietf_stats self data_xml) of
        Inl e \<Rightarrow> Inr None
      | Inr stats \<Rightarrow> Inr stats)"

definition nc_truthy :: "('k \<times> 'v) list option \<Rightarrow> bool" where
  \<comment> \<open>\<^verbatim>\<open>None\<close> and the empty dict are false in a condition\<close>
  "nc_truthy stats = (case stats of None \<Rightarrow> False | Some d \<Rightarrow> d \<noteq> [])"







section \<open>The resolver and the envelope of \<^verbatim>\<open>if-stats-netconf.py\<close>\<close>

text \<open>
  In this script \<^verbatim>\<open>get_element_text(...) or "0"\<close> makes every counter a string, so the
  samples are plain string dicts. The two adapters catch every exception; they enter the
  resolver as the value each returns when called (\<^verbatim>\<open>None\<close> or a dict). The second component
  of the result lists the adapters called, oldest first.
\<close>

datatype adapter = OpenConfig | Ietf

definition full_no_data :: "string \<Rightarrow> dict" where
  "full_no_data iface =
     [(''interface-name'', iface),
      (''model'', ''no-data''),
      (''in-octets'', ''0''),
      (''out-octets'', ''0''),
      (''in-packets'', ''0''),
      (''out-packets'', ''0'')]"

definition full_get_interface_stats ::
  "string \<Rightarrow> dict option \<Rightarrow> dict option \<Rightarrow> (exn + dict) \<times> adapter list" where
  "full_get_interface_stats iface openconfig ietf =
     (let try_ietf =
            (if \<not> nc_truthy ietf then (Inr (full_no_data iface), [OpenConfig, Ietf])
             else (Inr (the ietf), [OpenConfig, Ietf]))
      in if \<not> nc_truthy openconfig then try_ietf
         else (case int_get (the openconfig) ''in-octets'' of
                 Inl e \<Rightarrow> (Inl e, [OpenConfig])
               | Inr n \<Rightarrow> if n = 0 then try_ietf else (Inr (the openconfig), [OpenConfig])))"

definition dict_get :: "dict \<Rightarrow> string \<Rightarrow> string \<Rightarrow> string" where
  \<comment> \<open>\<^verbatim>\<open>d.get(k, default)\<close>\<close>
  "dict_get d k dflt = (case map_of d k of None \<Rightarrow> dflt | Some v \<Rightarrow> v)"

definition statistics_data :: "dict \<Rightarrow> (string \<times> json) list" where
  "statistics_data stats =
     [(''in-octets'', JString (dict_get stats ''in-octets'' ''0'')),
      (''out-octets'', JString (dict_get stats ''out-octets'' ''0'')),
      (''in-packets'', JString (dict_get stats ''in-packets'' ''0'')),
      (''out-packets'', JString (dict_get stats ''out-packets'' ''0'')),
      (''in-unicast-packets'', JString (dict_get stats ''in-unicast-pkts'' ''0'')),
      (''out-unicast-packets'', JString (dict_get stats ''out-unicast-pkts'' ''0'')),
      (''in-multicast-packets'', JString (dict_get stats ''in-multicast-pkts'' ''0'')),
      (''out-multicast-packets'', JString (dict_get stats ''out-multicast-pkts'' ''0'')),
      (''in-broadcast-packets'', JString (dict_get stats ''in-broadcast-pkts'' ''0'')),
      (''out-broadcast-packets'', JString (dict_get stats ''out-broadcast-pkts'' ''0'')),
      (''in-error-packets'', JString (dict_get stats ''in-errors'' ''0'')),
      (''out-error-packets'', JString (dict_get stats ''out-errors'' ''0'')),
      (''in-discarded-packets'', JString (dict_get stats ''in-discards'' ''0'')),
      (''out-discarded-packets'', JString (dict_get stats ''out-discards'' ''0'')),
      (''oper-status'', JString (dict_get stats ''oper-status'' ''unknown'')),
      (''model'', JString (dict_get stats ''model'' ''unknown''))]"

definition full_format_output ::
  "(real \<Rightarrow> string) \<Rightarrow> string \<Rightarrow> string \<Rightarrow> dict \<Rightarrow> dict \<Rightarrow> real \<Rightarrow> exn + json" where
  \<comment> \<open>\<^verbatim>\<open>source\<close> is \<^verbatim>\<open>f"{HOST}:{PORT}"\<close>, \<^verbatim>\<open>strftime\<close> the formatted UTC time\<close>
  "full_format_output strftime source iface stats traffic_rate timestamp =
     (case dict_item traffic_rate ''in-bps'' of Inl e \<Rightarrow> Inl e | Inr in_bps \<Rightarrow>
      (case dict_item traffic_rate ''out-bps'' of Inl e \<Rightarrow> Inl e | Inr out_bps \<Rightarrow>
         Inr (JObject
          [(''source'', JString source),
           (''subscription-name'', JString ''netconf-if-stats''),
           (''timestamp'', JNumber (nanos timestamp)),
           (''time'', JString (strftime timestamp)),
           (''updates'', JArray
             [JObject
               [(''Path'', JString (''openconfig-interfaces:interface[name='' @ iface
                                      @ '']/statistics'')),
                (''values'', JObject
                   [(''openconfig-interfaces:interface/statistics'',
                     JObject (statistics_data stats))])],
              JObject
               [(''Path'', JString (''openconfig-interfaces:interface[name='' @ iface
                                      @ '']/traffic-rate'')),
                (''values'', JObject
                   [(''openconfig-interfaces:interface/traffic-rate'',
                     JObject [(''in-bps'', JString in_bps),
                              (''out-bps'', JString out_bps)])])]])])))"
section \<open>Decimal strings\<close>

lemma digit_char_props:
  assumes "d < 10"
  shows "is_digit (digit_char d)" and "digit_val (digit_char d) = d"
proof -
  from assms have "d \<in> {0, 1, 2, 3, 4, 5, 6, 7, 8, 9}" by auto
  then show "is_digit (digit_char d)" and "digit_val (digit_char d) = d"
    by (auto simp: digit_char_def is_digit_def digit_val_def)
qed

lemma is_digit_plain:
  assumes "is_digit c"
  shows "c \<noteq> CHR ''_''" and "c \<noteq> CHR ''-''" and "c \<noteq> CHR ''+''" and "\<not> is_space c"
  using assms by (auto simp: is_digit_def is_space_def)

lemma nat_digits_all_digits: "\<forall>c \<in> set (nat_digits n). is_digit c"
proof (induction n rule: nat_digits.induct)
  case (1 n)
  show ?case
  proof (cases "n < 10")
    case True
    then show ?thesis by (simp add: nat_digits.simps [of n] digit_char_props)
  next
    case False
    with 1 show ?thesis by (simp add: nat_digits.simps [of n] digit_char_props)
  qed
qed

lemma nat_digits_not_Nil: "nat_digits n \<noteq> []"
  by (simp add: nat_digits.simps [of n])

lemma dec_digits_plain:
  "\<forall>c \<in> set xs. is_digit c \<Longrightarrow>
     dec_digits acc xs = Some (foldl (\<lambda>a c. a * 10 + digit_val c) acc xs)"
  by (induction xs arbitrary: acc) (auto dest: is_digit_plain(1))

lemma foldl_nat_digits: "foldl (\<lambda>a c. a * 10 + digit_val c) 0 (nat_digits n) = n"
proof (induction n rule: nat_digits.induct)
  case (1 n)
  show ?case
  proof (cases "n < 10")
    case True
    then show ?thesis by (simp add: nat_digits.simps [of n] digit_char_props)
  next
    case False
    with 1 show ?thesis by (simp add: nat_digits.simps [of n] digit_char_props)
  qed
qed

lemma dec_number_nat_digits: "dec_number (nat_digits n) = Some n"
proof (cases "nat_digits n")
  case Nil
  then show ?thesis by (simp add: nat_digits_not_Nil)
next
  case (Cons c cs)
  with nat_digits_all_digits [of n] have d: "is_digit c" "\<forall>x \<in> set cs. is_digit x" by auto
  from foldl_nat_digits [of n] Cons
  have "foldl (\<lambda>a c. a * 10 + digit_val c) (digit_val c) cs = n" by simp
  with d Cons show ?thesis by (simp add: dec_number_def dec_digits_plain)
qed

lemma strip_no_space: "\<forall>c \<in> set xs. \<not> is_space c \<Longrightarrow> strip xs = xs"
proof -
  assume a: "\<forall>c \<in> set xs. \<not> is_space c"
  have "dropWhile is_space ys = ys" if "\<forall>c \<in> set ys. \<not> is_space c" for ys
    using that by (cases ys) auto
  from this [of xs] this [of "rev xs"] a show ?thesis by (simp add: strip_def)
qed

lemma py_int_py_str: "py_int (py_str n) = Some n"
proof (cases "n < 0")
  case True
  have "\<not> is_space CHR ''-''" by (simp add: is_space_def)
  moreover have "\<forall>c \<in> set (nat_digits (nat (- n))). \<not> is_space c"
    using nat_digits_all_digits [of "nat (- n)"] by (auto dest: is_digit_plain(4))
  ultimately have "\<forall>c \<in> set (CHR ''-'' # nat_digits (nat (- n))). \<not> is_space c"
    by simp
  then have "strip (py_str n) = CHR ''-'' # nat_digits (nat (- n))"
    using True by (simp add: py_str_def strip_no_space)
  with True show ?thesis by (simp add: py_int_def dec_number_nat_digits)
next
  case False
  obtain c cs where cs: "nat_digits (nat n) = c # cs"
    using nat_digits_not_Nil [of "nat n"] by (cases "nat_digits (nat n)") auto
  with nat_digits_all_digits [of "nat n"] have d: "is_digit c" by auto
  have "\<forall>c \<in> set (nat_digits (nat n)). \<not> is_space c"
    using nat_digits_all_digits [of "nat n"] by (auto dest: is_digit_plain(4))
  then have "strip (py_str n) = c # cs"
    using False cs by (simp add: py_str_def strip_no_space)
  moreover have "dec_number (c # cs) = Some (nat n)"
    using dec_number_nat_digits [of "nat n"] cs by simp
  ultimately show ?thesis using False d by (simp add: py_int_def is_digit_plain)
qed

section \<open>Rounding to the nearest double\<close>

lemma bit_length_bounds:
  "0 < n \<Longrightarrow> 2 ^ (bit_length n - 1) \<le> n \<and> n < 2 ^ bit_length n"
proof (induction n rule: bit_length.induct)
  case (1 n)
  show ?case
  proof (cases "n div 2 = 0")
    case True
    with 1(2) have "n = 1" by (simp add: div_eq_0_iff)
    then show ?thesis by (simp add: bit_length.simps)
  next
    case False
    with 1 have ih: "2 ^ (bit_length (n div 2) - 1) \<le> n div 2" "n div 2 < 2 ^ bit_length (n div 2)"
      by simp_all
    have bl: "bit_length n = Suc (bit_length (n div 2))"
      using 1(2) by (simp add: bit_length.simps [of n])
    have pos: "0 < bit_length (n div 2)"
      using False by (simp add: bit_length.simps [of "n div 2"])
    then have "(2::nat) ^ bit_length (n div 2) = 2 * 2 ^ (bit_length (n div 2) - 1)"
      by (cases "bit_length (n div 2)") simp_all
    with ih(1) have "2 ^ bit_length (n div 2) \<le> 2 * (n div 2)" by simp
    also have "\<dots> \<le> n" by simp
    finally have lo: "2 ^ (bit_length n - 1) \<le> n" by (simp add: bl)
    from ih(2) have "n < 2 * 2 ^ bit_length (n div 2)" by arith
    with lo show ?thesis by (simp add: bl)
  qed
qed

lemma pow2_power_int: "pow2 k = 2 powi k"
  by (simp add: pow2_def power_int_def power_one_over inverse_eq_divide)

lemma pow2_pos: "0 < pow2 k"
  by (simp add: pow2_power_int zero_less_power_int)

lemma pow2_add: "pow2 (a + b) = pow2 a * pow2 b"
  by (simp add: pow2_power_int power_int_add)

lemma pow2_nat: "pow2 (int n) = 2 ^ n"
  by (simp add: pow2_def)

lemma binary_exponent_ge1:
  assumes "1 \<le> x"
  shows "0 \<le> binary_exponent x" and "pow2 (binary_exponent x) \<le> x"
    and "x < pow2 (binary_exponent x + 1)"
proof -
  let ?n = "nat \<lfloor>x\<rfloor>"
  from assms have n: "0 < ?n" by simp
  have e: "binary_exponent x = int (bit_length ?n) - 1"
    using assms by (simp add: binary_exponent_def)
  have blpos: "0 < bit_length ?n" using n by (simp add: bit_length.simps [of ?n])
  then show "0 \<le> binary_exponent x" by (simp add: e)
  have e': "binary_exponent x = int (bit_length ?n - 1)" using blpos e by simp
  from bit_length_bounds [OF n]
  have lo: "2 ^ (bit_length ?n - 1) \<le> ?n" and hi: "?n < 2 ^ bit_length ?n" by simp_all
  from lo have "(2::real) ^ (bit_length ?n - 1) \<le> real ?n"
    by (metis of_nat_le_iff of_nat_numeral of_nat_power)
  also have "real ?n \<le> x" using assms by simp
  finally show "pow2 (binary_exponent x) \<le> x" by (simp add: e' pow2_nat)
  from hi have "real ?n + 1 \<le> 2 ^ bit_length ?n"
    by (metis Suc_leI of_nat_Suc of_nat_le_iff of_nat_numeral of_nat_power add.commute)
  moreover have "x < real ?n + 1" using assms by simp
  moreover have "binary_exponent x + 1 = int (bit_length ?n)" using e by simp
  ultimately show "x < pow2 (binary_exponent x + 1)" by (simp add: pow2_nat)
qed

lemma round_half_even_of_int: "round_half_even (of_int m) = m"
  by (simp add: round_half_even_def)

lemma round_half_even_ge_floor: "\<lfloor>x\<rfloor> \<le> round_half_even x"
  by (simp add: round_half_even_def Let_def)

lemma round_half_even_nonneg: "0 \<le> x \<Longrightarrow> 0 \<le> round_half_even x"
  using round_half_even_ge_floor [of x] by (simp add: order_trans [of 0 "\<lfloor>x\<rfloor>"])

lemma round_double_sign:
  shows "x \<le> 0 \<Longrightarrow> round_double x \<le> 0" and "0 \<le> x \<Longrightarrow> 0 \<le> round_double x"
proof -
  have nn: "0 \<le> of_int (round_half_even (\<bar>x\<bar> / pow2 k)) * pow2 k" for k
    using round_half_even_nonneg [of "\<bar>x\<bar> / pow2 k"] pow2_pos [of k]
    by (simp add: less_imp_le)
  show "x \<le> 0 \<Longrightarrow> round_double x \<le> 0"
    using nn by (auto simp: round_double_def Let_def sgn_if mult.assoc)
  show "0 \<le> x \<Longrightarrow> 0 \<le> round_double x"
    using nn by (auto simp: round_double_def Let_def sgn_if mult.assoc)
qed

lemma round_double_minus: "round_double (- x) = - round_double x"
  by (simp add: round_double_def Let_def sgn_minus)

lemma round_double_ge1:
  assumes "1 \<le> x"
  shows "1 \<le> round_double x"
proof -
  let ?e = "binary_exponent x"
  let ?k = "?e - 52"
  from binary_exponent_ge1 [OF assms] have e: "0 \<le> ?e" and lo: "pow2 ?e \<le> x" by simp_all
  have k: "max (?e - 52) (- 1074) = ?k" using e by simp
  have "pow2 ?e = pow2 52 * pow2 ?k" using pow2_add [of 52 ?k] by simp
  then have "pow2 52 * pow2 ?k \<le> x" using lo by simp
  then have "pow2 52 \<le> x / pow2 ?k" using pow2_pos [of ?k] by (simp add: pos_le_divide_eq)
  then have "(2::real) ^ 52 \<le> x / pow2 ?k" using pow2_nat [of 52] by simp
  then have "(2::int) ^ 52 \<le> \<lfloor>x / pow2 ?k\<rfloor>" by (simp add: le_floor_iff)
  with round_half_even_ge_floor [of "x / pow2 ?k"]
  have "(2::int) ^ 52 \<le> round_half_even (x / pow2 ?k)" by linarith
  then have "(2::real) ^ 52 \<le> of_int (round_half_even (x / pow2 ?k))"
    by (metis of_int_le_iff of_int_numeral of_int_power)
  then have "pow2 52 * pow2 ?k \<le> of_int (round_half_even (x / pow2 ?k)) * pow2 ?k"
    using pow2_pos [of ?k] pow2_nat [of 52] by simp
  with \<open>pow2 ?e = pow2 52 * pow2 ?k\<close>
  have "pow2 ?e \<le> of_int (round_half_even (x / pow2 ?k)) * pow2 ?k" by simp
  moreover have "1 \<le> pow2 ?e" using e by (simp add: pow2_def)
  moreover have "round_double x = of_int (round_half_even (x / pow2 ?k)) * pow2 ?k"
    using assms k by (simp add: round_double_def Let_def)
  ultimately show ?thesis by simp
qed

lemma round_double_le_minus1: "x \<le> - 1 \<Longrightarrow> round_double x \<le> - 1"
  using round_double_ge1 [of "- x"] by (simp add: round_double_minus)

lemma round_double_of_int:
  assumes "\<bar>n\<bar> \<le> 2 ^ 53"
  shows "round_double (of_int n) = of_int n"
proof (cases "n = 0")
  case True
  then show ?thesis by (simp add: round_double_def)
next
  case False
  define a where "a = \<bar>real_of_int n\<bar>"
  define e where "e = binary_exponent a"
  have a1: "1 \<le> a" using False by (simp add: a_def)
  have a53: "a \<le> 2 ^ 53"
  proof -
    from assms have "real_of_int \<bar>n\<bar> \<le> real_of_int (2 ^ 53)" by (simp only: of_int_le_iff)
    then show ?thesis by (simp add: a_def)
  qed
  from binary_exponent_ge1 [OF a1] have e0: "0 \<le> e" and lo: "pow2 e \<le> a"
    by (simp_all add: e_def)
  have k: "max (e - 52) (- 1074) = e - 52" using e0 by simp
  have "(2::real) ^ nat e \<le> 2 ^ 53" using lo a53 e0 by (simp add: pow2_def)
  from power_le_imp_le_exp [of "2::real" "nat e" 53, OF _ this]
  have e53: "e \<le> 53" using e0 by simp
  have "\<exists>m. a / pow2 (e - 52) = real_of_int m"
  proof (cases "e \<le> 52")
    case True
    then have "pow2 (e - 52) = 1 / 2 ^ nat (52 - e)" by (simp add: pow2_def)
    then have "a / pow2 (e - 52) = real_of_int (\<bar>n\<bar> * 2 ^ nat (52 - e))"
      by (simp add: a_def)
    then show ?thesis by blast
  next
    case False
    with e53 have e: "e = 53" by simp
    then have "pow2 e = 2 ^ 53" by (simp add: pow2_def)
    with lo a53 have "a = 2 ^ 53" by simp
    then have "a / pow2 (e - 52) = real_of_int (2 ^ 52)" using e by (simp add: pow2_def)
    then show ?thesis by blast
  qed
  then obtain m where m: "a / pow2 (e - 52) = real_of_int m" by blast
  have unscale: "real_of_int m * pow2 (e - 52) = a"
    using m pow2_pos [of "e - 52"] by (simp add: field_simps)
  have "round_double (of_int n)
          = sgn (real_of_int n) * real_of_int (round_half_even (a / pow2 (e - 52))) * pow2 (e - 52)"
    using False by (simp add: round_double_def Let_def k a_def [symmetric] e_def [symmetric])
  also have "\<dots> = sgn (real_of_int n) * (real_of_int m * pow2 (e - 52))"
    by (simp only: m round_half_even_of_int mult.assoc)
  also have "\<dots> = sgn (real_of_int n) * \<bar>real_of_int n\<bar>"
    by (simp only: unscale a_def)
  also have "\<dots> = real_of_int n" by (simp add: sgn_if)
  finally show ?thesis .
qed

section \<open>Rate engine\<close>

lemmas py_int_eval = py_int_def strip_def is_space_def dec_number_def is_digit_def digit_val_def
lemmas py_str_eval = py_str_def nat_digits.simps digit_char_def
lemmas float_eval = round_double_def binary_exponent_def round_half_even_def pow2_def
  bit_length.simps overflows_def float_sub_def float_mul_def int_to_float_def nanos_def

lemma octet_diff_parsed:
  assumes "map_of cur k = Some a" "py_int a = Some x" "map_of prev k = Some b" "py_int b = Some y"
  shows "octet_diff cur prev k = Inr (x - y)"
  using assms by (simp add: octet_diff_def dict_item_def int_of_str_def)

lemma calculate_traffic_rate_computed:
  assumes "prev_stats self \<noteq> []" and "prev_timestamp self = Some t0" and "t0 \<noteq> 0"
    and "0 < float_sub now t0"
    and "octet_diff cur (prev_stats self) ''in-octets'' = Inr din"
    and "octet_diff cur (prev_stats self) ''out-octets'' = Inr dout"
  shows "calculate_traffic_rate self cur now =
           (case bps din (float_sub now t0) of
              Inl e \<Rightarrow> Inl e
            | Inr r_in \<Rightarrow>
               (case bps dout (float_sub now t0) of
                  Inl e \<Rightarrow> Inl e
                | Inr r_out \<Rightarrow>
                   Inr (Some [(''in-bps'', r_in), (''out-bps'', r_out)],
                        self\<lparr>prev_stats := cur, prev_timestamp := Some now\<rparr>)))"
  using assms
  by (simp add: calculate_traffic_rate_def dict_truthy_def float_truthy_def zero_rate_def
        dict_set_def Let_def split: sum.splits)

lemma float_sub_nonpos: "a \<le> b \<Longrightarrow> float_sub a b \<le> 0"
  by (simp add: float_sub_def round_double_sign(1))

lemma calculate_traffic_rate_no_rate:
  assumes "prev_stats self = [] \<or> prev_timestamp self = None \<or> prev_timestamp self = Some 0
             \<or> (\<exists>t0. prev_timestamp self = Some t0 \<and> now \<le> t0)"
  shows "calculate_traffic_rate self cur now =
           Inr (Some zero_rate, self\<lparr>prev_stats := cur, prev_timestamp := Some now\<rparr>)"
proof -
  have "\<not> 0 < float_sub now t0" if "now \<le> t0" for t0
    using float_sub_nonpos [OF that] by simp
  with assms show ?thesis
    by (auto simp: calculate_traffic_rate_def dict_truthy_def float_truthy_def Let_def)
qed

lemma py_trunc_nonneg: "0 \<le> q \<Longrightarrow> py_trunc q = \<lfloor>q\<rfloor>"
  by (simp add: py_trunc_def)

lemma py_trunc_of_int: "py_trunc (of_int m) = m"
  by (simp add: py_trunc_def)

lemma py_trunc_sign:
  shows "q \<le> 0 \<Longrightarrow> py_trunc q \<le> 0" and "q \<le> - 1 \<Longrightarrow> py_trunc q < 0"
    and "0 \<le> q \<Longrightarrow> 0 \<le> py_trunc q"
proof -
  show "q \<le> 0 \<Longrightarrow> py_trunc q \<le> 0" by (auto simp: py_trunc_def)
  show "0 \<le> q \<Longrightarrow> 0 \<le> py_trunc q" by (simp add: py_trunc_def)
  assume "q \<le> - 1"
  then have "1 \<le> \<lfloor>- q\<rfloor>" by (simp add: le_floor_iff)
  with \<open>q \<le> - 1\<close> show "py_trunc q < 0" by (simp add: py_trunc_def)
qed

lemma bps_value:
  assumes "bps diff dt = Inr s"
  shows "int_to_float (diff * 8) = Inr (round_double (of_int (diff * 8)))"
    and "s = py_str (py_trunc (round_double (round_double (of_int (diff * 8)) / dt)))"
  using assms by (auto simp: bps_def int_to_float_def split: if_splits)

lemma bps_regression:
  assumes "bps diff dt = Inr s" and "diff < 0" and "0 < dt"
  shows "\<exists>r. s = py_str r \<and> r \<le> 0 \<and> (- (diff * 8) \<le> 2 ^ 53 \<and> dt \<le> real_of_int (- (diff * 8)) \<longrightarrow> r < 0)"
proof -
  let ?a = "round_double (of_int (diff * 8))"
  let ?r = "py_trunc (round_double (?a / dt))"
  have s: "s = py_str ?r" using bps_value(2) [OF assms(1)] .
  have "?a \<le> 0" using assms(2) by (intro round_double_sign(1)) simp
  then have "?a / dt \<le> 0" using assms(3) by (simp add: divide_nonpos_pos)
  then have r0: "?r \<le> 0" by (intro py_trunc_sign(1) round_double_sign(1))
  have "?r < 0" if small: "- (diff * 8) \<le> 2 ^ 53" and dt: "dt \<le> real_of_int (- (diff * 8))"
  proof -
    have "\<bar>diff * 8\<bar> \<le> 2 ^ 53" using small assms(2) by simp
    then have a: "?a = of_int (diff * 8)" by (rule round_double_of_int)
    have "real_of_int (diff * 8) \<le> - 1 * dt" using dt by simp
    then have "real_of_int (diff * 8) / dt \<le> - 1"
      using assms(3) by (simp only: pos_divide_le_eq)
    then have "round_double (?a / dt) \<le> - 1"
      unfolding a by (rule round_double_le_minus1)
    then show ?thesis by (rule py_trunc_sign(2))
  qed
  with s r0 show ?thesis by blast
qed

lemma bps_exact:
  assumes "\<bar>diff * 8\<bar> \<le> 2 ^ 53" and "\<bar>m\<bar> \<le> 2 ^ 53" and "dt \<noteq> 0"
    and "real_of_int (diff * 8) / dt = real_of_int m"
  shows "bps diff dt = Inr (py_str m)"
proof -
  have big: "(2::real) ^ 53 < 2 ^ 1024" by simp
  have bound: "\<bar>real_of_int n\<bar> < 2 ^ 1024" if "\<bar>n\<bar> \<le> 2 ^ 53" for n
  proof -
    from that have "real_of_int \<bar>n\<bar> \<le> real_of_int (2 ^ 53)" by (simp only: of_int_le_iff)
    then have "\<bar>real_of_int n\<bar> \<le> 2 ^ 53" by simp
    with big show ?thesis by linarith
  qed
  have a: "round_double (of_int (diff * 8)) = of_int (diff * 8)"
    using assms(1) by (rule round_double_of_int)
  have q: "round_double (of_int m) = of_int m" using assms(2) by (rule round_double_of_int)
  have no1: "\<not> overflows (of_int (diff * 8))"
    using bound [OF assms(1)] by (simp only: overflows_def a not_le)
  have no2: "\<not> overflows (real_of_int m)"
    using bound [OF assms(2)] by (simp only: overflows_def q not_le)
  have conv: "int_to_float (diff * 8) = Inr (of_int (diff * 8))"
    by (simp only: int_to_float_def no1 if_False a)
  show ?thesis
    by (simp only: bps_def conv sum.case assms(3) assms(4) no2 if_False q py_trunc_of_int)
qed

lemma bps_nonneg:
  assumes "bps diff dt = Inr s" and "0 \<le> diff" and "0 < dt"
  shows "\<exists>r. s = py_str r \<and> 0 \<le> r
           \<and> (\<forall>m. diff * 8 \<le> 2 ^ 53 \<and> \<bar>m\<bar> \<le> 2 ^ 53
                   \<and> real_of_int (diff * 8) / dt = real_of_int m \<longrightarrow> r = m)"
proof -
  let ?a = "round_double (of_int (diff * 8))"
  let ?r = "py_trunc (round_double (?a / dt))"
  have s: "s = py_str ?r" using bps_value(2) [OF assms(1)] .
  have "0 \<le> ?a" using assms(2) by (intro round_double_sign(2)) simp
  then have "0 \<le> ?a / dt" using assms(3) by simp
  then have r0: "0 \<le> ?r" by (intro py_trunc_sign(3) round_double_sign(2))
  have "?r = m" if "diff * 8 \<le> 2 ^ 53" and "\<bar>m\<bar> \<le> 2 ^ 53"
    and "real_of_int (diff * 8) / dt = real_of_int m" for m
  proof -
    have "\<bar>diff * 8\<bar> \<le> 2 ^ 53" using that(1) assms(2) by simp
    then have a: "?a = of_int (diff * 8)" by (rule round_double_of_int)
    have "round_double (of_int m) = of_int m" using that(2) by (rule round_double_of_int)
    then show ?thesis by (simp only: a that(3) py_trunc_of_int)
  qed
  with s r0 show ?thesis by blast
qed
section \<open>Poll loop and envelope\<close>





lemma json_strings_field:
  assumes "distinct (map fst data)" and "(k, v) \<in> set data"
  shows "json_field (json_strings data) k = Some (JString v)"
proof -
  have "map_of (map (\<lambda>(k, v). (k, JString v)) data) k = map_option JString (map_of data k)"
    by (induction data) auto
  with assms show ?thesis by (simp add: json_strings_def json_field_def)
qed

lemma format_output_reported:
  assumes "distinct (map fst data)" and "(k, v) \<in> set data"
  shows "reported (format_output fmt self block data ts) (''IF-MIB:interface/'' @ block) k
           = Some (JString v)"
  using json_strings_field [OF assms]
  by (simp add: reported_def format_output_def json_field_def)

lemma statistics_data_field:
  assumes "(f, key) \<in> set
           [(''in-octets'', ''in-octets''), (''out-octets'', ''out-octets''),
            (''in-packets'', ''in-packets''), (''out-packets'', ''out-packets''),
            (''in-unicast-packets'', ''in-unicast-pkts''),
            (''out-unicast-packets'', ''out-unicast-pkts''),
            (''in-multicast-packets'', ''in-multicast-pkts''),
            (''out-multicast-packets'', ''out-multicast-pkts''),
            (''in-broadcast-packets'', ''in-broadcast-pkts''),
            (''out-broadcast-packets'', ''out-broadcast-pkts''),
            (''in-error-packets'', ''in-errors''), (''out-error-packets'', ''out-errors''),
            (''in-discarded-packets'', ''in-discards''),
            (''out-discarded-packets'', ''out-discards'')]"
  shows "map_of (statistics_data stats) f = Some (JString (dict_get stats key ''0''))"
proof -
  from assms have "(f, key) = (''in-octets'', ''in-octets'') \<or> (f, key) = (''out-octets'', ''out-octets'')
    \<or> (f, key) = (''in-packets'', ''in-packets'') \<or> (f, key) = (''out-packets'', ''out-packets'')
    \<or> (f, key) = (''in-unicast-packets'', ''in-unicast-pkts'')
    \<or> (f, key) = (''out-unicast-packets'', ''out-unicast-pkts'')
    \<or> (f, key) = (''in-multicast-packets'', ''in-multicast-pkts'')
    \<or> (f, key) = (''out-multicast-packets'', ''out-multicast-pkts'')
    \<or> (f, key) = (''in-broadcast-packets'', ''in-broadcast-pkts'')
    \<or> (f, key) = (''out-broadcast-packets'', ''out-broadcast-pkts'')
    \<or> (f, key) = (''in-error-packets'', ''in-errors'')
    \<or> (f, key) = (''out-error-packets'', ''out-errors'')
    \<or> (f, key) = (''in-discarded-packets'', ''in-discards'')
    \<or> (f, key) = (''out-discarded-packets'', ''out-discards'')"
    by (simp only: set_simps insert_iff empty_iff simp_thms)
  then show ?thesis
    by (elim disjE) (simp_all only: prod.inject, simp_all add: statistics_data_def)
qed

lemma full_format_output_reported:
  assumes "full_format_output fmt source iface stats rate ts = Inr r"
  shows "reported r ''openconfig-interfaces:interface/statistics'' f
           = map_of (statistics_data stats) f"
proof (cases "dict_item rate ''in-bps''")
  case (Inl e)
  with assms show ?thesis by (simp add: full_format_output_def)
next
  case a: (Inr a)
  show ?thesis
  proof (cases "dict_item rate ''out-bps''")
    case (Inl e)
    with a assms show ?thesis by (simp add: full_format_output_def)
  next
    case (Inr b)
    with a assms have "r = JObject
          [(''source'', JString source),
           (''subscription-name'', JString ''netconf-if-stats''),
           (''timestamp'', JNumber (nanos ts)),
           (''time'', JString (fmt ts)),
           (''updates'', JArray
             [JObject
               [(''Path'', JString (''openconfig-interfaces:interface[name='' @ iface
                                      @ '']/statistics'')),
                (''values'', JObject
                   [(''openconfig-interfaces:interface/statistics'',
                     JObject (statistics_data stats))])],
              JObject
               [(''Path'', JString (''openconfig-interfaces:interface[name='' @ iface
                                      @ '']/traffic-rate'')),
                (''values'', JObject
                   [(''openconfig-interfaces:interface/traffic-rate'',
                     JObject [(''in-bps'', JString a),
                              (''out-bps'', JString b)])])]])]"
      by (simp add: full_format_output_def)
    then show ?thesis by (simp add: reported_def json_field_def)
  qed
qed
section \<open>Adapters and resolvers\<close>

lemma get_snmp_value_never_raises: "\<exists>v. get_snmp_value self sess oid = Inr v"
  by (simp add: get_snmp_value_def split: get_outcome.splits exn.splits)

lemma read_counters_asked:
  "snd (read_counters self sess kvs stats asked) = asked @ map snd kvs"
proof (induction kvs arbitrary: stats asked)
  case Nil
  then show ?case by simp
next
  case (Cons kv kvs)
  obtain k oid where kv: "kv = (k, oid)" by (cases kv)
  obtain v where "get_snmp_value self sess oid = Inr v"
    using get_snmp_value_never_raises by blast
  with Cons kv show ?case by simp
qed

lemma get_interface_stats_asked:
  "snd (get_interface_stats self sess) =
     [ifHCInOctets, ifHCOutOctets] @
       (if get_snmp_value self sess ifHCInOctets = Inr ''0''
           \<and> get_snmp_value self sess ifHCOutOctets = Inr ''0''
        then map snd legacy_oids else map snd hc_packet_oids)"
proof -
  obtain a where a: "get_snmp_value self sess ifHCInOctets = Inr a"
    using get_snmp_value_never_raises by blast
  obtain b where b: "get_snmp_value self sess ifHCOutOctets = Inr b"
    using get_snmp_value_never_raises by blast
  show ?thesis
    using read_counters_asked [of self sess hc_packet_oids
            "[(''in-octets'', a), (''out-octets'', b)]" "[ifHCInOctets, ifHCOutOctets]"]
          read_counters_asked [of self sess legacy_oids "[]" "[ifHCInOctets, ifHCOutOctets]"]
    by (auto simp: get_interface_stats_def a b split: prod.splits sum.splits)
qed

lemma legacy_asked_iff:
  "''.1.3.6.1.2.1.2.2.1.10'' \<in> set (snd (get_interface_stats self sess)) \<longleftrightarrow>
     get_snmp_value self sess ifHCInOctets = Inr ''0''
     \<and> get_snmp_value self sess ifHCOutOctets = Inr ''0''"
  by (simp add: get_interface_stats_asked ifHCInOctets_def ifHCOutOctets_def legacy_oids_def
        hc_packet_oids_def)

lemma ietf_called_iff:
  "Ietf \<in> set (snd (full_get_interface_stats iface oc ietf)) \<longleftrightarrow>
     \<not> nc_truthy oc \<or> int_get (the oc) ''in-octets'' = Inr 0"
  by (auto simp: full_get_interface_stats_def Let_def split: sum.splits)

lemma netconf_adapters_never_raise:
  "\<exists>r. get_interface_stats_openconfig self mgr = Inr r"
  "\<exists>r. get_interface_stats_ietf self mgr = Inr r"
  by (simp_all add: get_interface_stats_openconfig_def get_interface_stats_ietf_def
        split: sum.splits rpc_outcome.splits)

lemma add_totals_sums:
  assumes "add_totals stats = Inr stats'"
  shows "\<exists>u m b. int_get stats ''in-unicast-packets'' = Inr u
           \<and> int_get stats ''in-multicast-packets'' = Inr m
           \<and> int_get stats ''in-broadcast-packets'' = Inr b
           \<and> map_of stats' ''in-packets'' = Some (py_str (u + m + b))"
  using assms
  by (auto simp: add_totals_def packet_total_def dict_set_def update_conv' Let_def
        split: sum.splits)




section \<open>Claims about the rate calculation\<close>

text \<open>
  Claim C1 as stated does not hold. With a previous sample of 5000 in-octets at time 10 and a
  current sample of 100 in-octets at time 15, \<^verbatim>\<open>calculate_traffic_rate\<close> reports the
  in-rate \<^verbatim>\<open>"-7840"\<close>: the negative difference is not clamped to zero.
\<close>

theorem counter_regression_counterexample:
  "calculate_traffic_rate
     \<lparr>target = ''172.100.100.5'', interface_index = 2,
      prev_stats = [(''in-octets'', ''5000''), (''out-octets'', ''700'')],
      prev_timestamp = Some 10\<rparr>
     [(''in-octets'', ''100''), (''out-octets'', ''900'')] 15
   = Inr (Some [(''in-bps'', ''-7840''), (''out-bps'', ''320'')],
          \<lparr>target = ''172.100.100.5'', interface_index = 2,
           prev_stats = [(''in-octets'', ''100''), (''out-octets'', ''900'')],
           prev_timestamp = Some 15\<rparr>)"
  by (simp add: calculate_traffic_rate_def dict_truthy_def float_truthy_def zero_rate_def
        dict_set_def Let_def octet_diff_def dict_item_def int_of_str_def py_int_eval bps_def
        float_eval py_trunc_def py_str_eval)

text \<open>
  Claim C1, amended. With a truthy previous sample and a computed \<open>dt > 0\<close>, the rate
  reported for each field is \<^verbatim>\<open>int(delta * 8 / dt)\<close> in double arithmetic, without any
  clamp. For a counter that went backwards the rate is never positive, and it is negative as
  soon as \<open>dt \<le> 8 * |delta|\<close> (for \<open>8 * |delta| \<le> 2^53\<close>). The state afterwards holds the
  current sample and the current time.
\<close>

theorem regression_rate_not_clamped:
  assumes "prev_stats self \<noteq> []" and "prev_timestamp self = Some t0" and "t0 \<noteq> 0"
    and "0 < float_sub now t0"
    and "octet_diff cur (prev_stats self) ''in-octets'' = Inr din"
    and "octet_diff cur (prev_stats self) ''out-octets'' = Inr dout"
    and "bps din (float_sub now t0) = Inr s_in"
    and "bps dout (float_sub now t0) = Inr s_out"
  shows "calculate_traffic_rate self cur now =
           Inr (Some [(''in-bps'', s_in), (''out-bps'', s_out)],
                self\<lparr>prev_stats := cur, prev_timestamp := Some now\<rparr>)
         \<and> (din < 0 \<longrightarrow>
               (\<exists>r. s_in = py_str r \<and> r \<le> 0
                  \<and> (- (din * 8) \<le> 2 ^ 53 \<and> float_sub now t0 \<le> real_of_int (- (din * 8))
                       \<longrightarrow> r < 0)))
         \<and> (dout < 0 \<longrightarrow>
               (\<exists>r. s_out = py_str r \<and> r \<le> 0
                  \<and> (- (dout * 8) \<le> 2 ^ 53 \<and> float_sub now t0 \<le> real_of_int (- (dout * 8))
                       \<longrightarrow> r < 0)))"
proof -
  have "calculate_traffic_rate self cur now =
          Inr (Some [(''in-bps'', s_in), (''out-bps'', s_out)],
               self\<lparr>prev_stats := cur, prev_timestamp := Some now\<rparr>)"
    using calculate_traffic_rate_computed [OF assms(1-6)] assms(7,8) by simp
  moreover have "\<exists>r. s_in = py_str r \<and> r \<le> 0
      \<and> (- (din * 8) \<le> 2 ^ 53 \<and> float_sub now t0 \<le> real_of_int (- (din * 8)) \<longrightarrow> r < 0)"
    if "din < 0"
    using bps_regression [OF assms(7) that assms(4)] .
  moreover have "\<exists>r. s_out = py_str r \<and> r \<le> 0
      \<and> (- (dout * 8) \<le> 2 ^ 53 \<and> float_sub now t0 \<le> real_of_int (- (dout * 8)) \<longrightarrow> r < 0)"
    if "dout < 0"
    using bps_regression [OF assms(8) that assms(4)] .
  ultimately show ?thesis by blast
qed

text \<open>
  Claim C1, amended: the theorem at the reset from 5000 to 100 octets over five seconds, where
  the reported in-rate is the decimal string of a negative number.
\<close>

theorem regression_rate_not_clamped_witness:
  "calculate_traffic_rate
     \<lparr>target = ''172.100.100.5'', interface_index = 2,
      prev_stats = [(''in-octets'', ''5000''), (''out-octets'', ''700'')],
      prev_timestamp = Some 10\<rparr>
     [(''in-octets'', ''100''), (''out-octets'', ''900'')] 15
   = Inr (Some [(''in-bps'', ''-7840''), (''out-bps'', ''320'')],
          \<lparr>target = ''172.100.100.5'', interface_index = 2,
           prev_stats = [(''in-octets'', ''100''), (''out-octets'', ''900'')],
           prev_timestamp = Some 15\<rparr>)
   \<and> (\<exists>r. ''-7840'' = py_str r \<and> r < 0)"
proof -
  let ?self = "\<lparr>target = ''172.100.100.5'', interface_index = 2,
      prev_stats = [(''in-octets'', ''5000''), (''out-octets'', ''700'')],
      prev_timestamp = Some (10::real)\<rparr>"
  let ?cur = "[(''in-octets'', ''100''), (''out-octets'', ''900'')]"
  have dt: "float_sub 15 10 = 5" by (simp add: float_eval)
  have i: "octet_diff ?cur (prev_stats ?self) ''in-octets'' = Inr (- 4900)"
    by (simp add: octet_diff_def dict_item_def int_of_str_def py_int_eval)
  have out: "octet_diff ?cur (prev_stats ?self) ''out-octets'' = Inr 200"
    by (simp add: octet_diff_def dict_item_def int_of_str_def py_int_eval)
  have bi: "bps (- 4900) (float_sub 15 10) = Inr ''-7840''"
    unfolding dt by (simp add: bps_def float_eval py_trunc_def py_str_eval)
  have bo: "bps 200 (float_sub 15 10) = Inr ''320''"
    unfolding dt by (simp add: bps_def float_eval py_trunc_def py_str_eval)
  from regression_rate_not_clamped [of ?self 10 15 ?cur "- 4900" 200 "''-7840''" "''320''",
      OF _ _ _ _ i out bi bo]
  have "calculate_traffic_rate ?self ?cur 15 =
          Inr (Some [(''in-bps'', ''-7840''), (''out-bps'', ''320'')],
               ?self\<lparr>prev_stats := ?cur, prev_timestamp := Some 15\<rparr>)
        \<and> (\<exists>r. ''-7840'' = py_str r \<and> r \<le> 0 \<and> r < 0)"
    by (simp add: dt)
  then show ?thesis by auto
qed

text \<open>
  Claim C6 as stated does not hold: the quotient is a double, not the exact quotient. From
  1000 to 343409657 in-octets between the clock readings 1700000000.0 and
  1700000005.0000002 (the double \<open>1700000005 + 2^-22\<close>) the code reports 549453825 bits per
  second, while \<open>delta * 8 / dt\<close> rounded toward zero is 549453824.
\<close>

theorem exact_quotient_counterexample:
  "calculate_traffic_rate
     \<lparr>target = ''172.100.100.5'', interface_index = 2,
      prev_stats = [(''in-octets'', ''1000''), (''out-octets'', ''40'')],
      prev_timestamp = Some 1700000000\<rparr>
     [(''in-octets'', ''343409657''), (''out-octets'', ''40'')] (1700000005 + 1 / 2 ^ 22)
   = Inr (Some [(''in-bps'', ''549453825''), (''out-bps'', ''0'')],
          \<lparr>target = ''172.100.100.5'', interface_index = 2,
           prev_stats = [(''in-octets'', ''343409657''), (''out-octets'', ''40'')],
           prev_timestamp = Some (1700000005 + 1 / 2 ^ 22)\<rparr>)
   \<and> py_trunc (real_of_int ((343409657 - 1000) * 8)
                / ((1700000005 + 1 / 2 ^ 22) - 1700000000)) = 549453824"
  by (simp add: calculate_traffic_rate_def dict_truthy_def float_truthy_def zero_rate_def
        dict_set_def Let_def octet_diff_def dict_item_def int_of_str_def py_int_eval bps_def
        float_eval py_trunc_def py_str_eval)

text \<open>
  Claim C6, amended. With a truthy previous sample, a computed \<open>dt > 0\<close> and non-negative
  differences, the reported rate is the double quotient of \<open>delta * 8\<close> by \<open>dt\<close> rounded toward
  zero, a non-negative integer. It is exactly \<open>delta * 8 / dt\<close> whenever that quotient is an
  integer and both it and \<open>delta * 8\<close> are at most \<open>2^53\<close>.
\<close>

theorem rate_truncates_double_quotient:
  assumes "prev_stats self \<noteq> []" and "prev_timestamp self = Some t0" and "t0 \<noteq> 0"
    and "0 < float_sub now t0"
    and "octet_diff cur (prev_stats self) ''in-octets'' = Inr din"
    and "octet_diff cur (prev_stats self) ''out-octets'' = Inr dout"
    and "0 \<le> din" and "0 \<le> dout"
    and "bps din (float_sub now t0) = Inr s_in"
    and "bps dout (float_sub now t0) = Inr s_out"
  shows "calculate_traffic_rate self cur now =
           Inr (Some [(''in-bps'', s_in), (''out-bps'', s_out)],
                self\<lparr>prev_stats := cur, prev_timestamp := Some now\<rparr>)
         \<and> s_in = py_str (py_trunc (round_double
                      (round_double (real_of_int (din * 8)) / float_sub now t0)))
         \<and> s_out = py_str (py_trunc (round_double
                      (round_double (real_of_int (dout * 8)) / float_sub now t0)))
         \<and> (\<exists>r. s_in = py_str r \<and> 0 \<le> r
               \<and> (\<forall>m. din * 8 \<le> 2 ^ 53 \<and> \<bar>m\<bar> \<le> 2 ^ 53
                       \<and> real_of_int (din * 8) / float_sub now t0 = real_of_int m
                       \<longrightarrow> r = m))
         \<and> (\<exists>r. s_out = py_str r \<and> 0 \<le> r
               \<and> (\<forall>m. dout * 8 \<le> 2 ^ 53 \<and> \<bar>m\<bar> \<le> 2 ^ 53
                       \<and> real_of_int (dout * 8) / float_sub now t0 = real_of_int m
                       \<longrightarrow> r = m))"
proof -
  have "calculate_traffic_rate self cur now =
          Inr (Some [(''in-bps'', s_in), (''out-bps'', s_out)],
               self\<lparr>prev_stats := cur, prev_timestamp := Some now\<rparr>)"
    using calculate_traffic_rate_computed [OF assms(1-6)] assms(9,10) by simp
  with bps_value(2) [OF assms(9)] bps_value(2) [OF assms(10)]
    bps_nonneg [OF assms(9) assms(7) assms(4)] bps_nonneg [OF assms(10) assms(8) assms(4)]
  show ?thesis by blast
qed

text \<open>
  Claim C6, amended, at the input of the specification: 1000 then 2000 in-octets five seconds
  apart give 1600 bits per second.
\<close>

theorem rate_truncates_double_quotient_witness:
  "calculate_traffic_rate
     \<lparr>target = ''172.100.100.5'', interface_index = 2,
      prev_stats = [(''in-octets'', ''1000''), (''out-octets'', ''40'')],
      prev_timestamp = Some 100\<rparr>
     [(''in-octets'', ''2000''), (''out-octets'', ''47'')] 105
   = Inr (Some [(''in-bps'', ''1600''), (''out-bps'', ''11'')],
          \<lparr>target = ''172.100.100.5'', interface_index = 2,
           prev_stats = [(''in-octets'', ''2000''), (''out-octets'', ''47'')],
           prev_timestamp = Some 105\<rparr>)
   \<and> py_str 1600 = ''1600''"
proof -
  let ?self = "\<lparr>target = ''172.100.100.5'', interface_index = 2,
      prev_stats = [(''in-octets'', ''1000''), (''out-octets'', ''40'')],
      prev_timestamp = Some (100::real)\<rparr>"
  let ?cur = "[(''in-octets'', ''2000''), (''out-octets'', ''47'')]"
  have dt: "float_sub 105 100 = 5" by (simp add: float_eval)
  have i: "octet_diff ?cur (prev_stats ?self) ''in-octets'' = Inr 1000"
    by (simp add: octet_diff_def dict_item_def int_of_str_def py_int_eval)
  have out: "octet_diff ?cur (prev_stats ?self) ''out-octets'' = Inr 7"
    by (simp add: octet_diff_def dict_item_def int_of_str_def py_int_eval)
  have bi: "bps 1000 (float_sub 105 100) = Inr ''1600''"
    unfolding dt by (simp add: bps_def float_eval py_trunc_def py_str_eval)
  have bo: "bps 7 (float_sub 105 100) = Inr ''11''"
    unfolding dt by (simp add: bps_def float_eval py_trunc_def py_str_eval)
  from rate_truncates_double_quotient [of ?self 100 105 ?cur 1000 7 "''1600''" "''11''",
      OF _ _ _ _ i out _ _ bi bo]
  have "calculate_traffic_rate ?self ?cur 105 =
          Inr (Some [(''in-bps'', ''1600''), (''out-bps'', ''11'')],
               ?self\<lparr>prev_stats := ?cur, prev_timestamp := Some 105\<rparr>)"
    by (simp add: dt)
  then show ?thesis by (simp add: py_str_eval)
qed

text \<open>
  Claim C2 as stated does not hold. A poll whose clock reading (8) lies before the stored one
  (10) still returns a rate, the zero rate, and the stored sample and time are replaced by the
  current ones.
\<close>

theorem nonpositive_dt_counterexample:
  "calculate_traffic_rate
     \<lparr>target = ''172.100.100.5'', interface_index = 2,
      prev_stats = [(''in-octets'', ''5000''), (''out-octets'', ''700'')],
      prev_timestamp = Some 10\<rparr>
     [(''in-octets'', ''6000''), (''out-octets'', ''900'')] 8
   = Inr (Some [(''in-bps'', ''0''), (''out-bps'', ''0'')],
          \<lparr>target = ''172.100.100.5'', interface_index = 2,
           prev_stats = [(''in-octets'', ''6000''), (''out-octets'', ''900'')],
           prev_timestamp = Some 8\<rparr>)"
  by (simp add: calculate_traffic_rate_def dict_truthy_def float_truthy_def zero_rate_def
        Let_def float_eval)

text \<open>
  Claim C2, amended. When a previous timestamp exists and \<open>dt \<le> 0\<close>, the call returns the
  zero rate \<^verbatim>\<open>{'in-bps': '0', 'out-bps': '0'}\<close> and overwrites the stored sample and
  timestamp with the current ones.
\<close>

theorem nonpositive_dt_overwrites_state:
  assumes "prev_timestamp self = Some t0" and "now \<le> t0"
  shows "calculate_traffic_rate self cur now =
           Inr (Some [(''in-bps'', ''0''), (''out-bps'', ''0'')],
                self\<lparr>prev_stats := cur, prev_timestamp := Some now\<rparr>)"
  using assms calculate_traffic_rate_no_rate [of self now cur] by (simp add: zero_rate_def)

text \<open>Claim C2, amended: the theorem at a poll repeated at the stored clock reading.\<close>

theorem nonpositive_dt_overwrites_state_witness:
  "calculate_traffic_rate
     \<lparr>target = ''172.100.100.5'', interface_index = 2,
      prev_stats = [(''in-octets'', ''5000''), (''out-octets'', ''700'')],
      prev_timestamp = Some 10\<rparr>
     [(''in-octets'', ''6000''), (''out-octets'', ''900'')] 10
   = Inr (Some [(''in-bps'', ''0''), (''out-bps'', ''0'')],
          \<lparr>target = ''172.100.100.5'', interface_index = 2,
           prev_stats = [(''in-octets'', ''6000''), (''out-octets'', ''900'')],
           prev_timestamp = Some 10\<rparr>)"
  using nonpositive_dt_overwrites_state
    [of "\<lparr>target = ''172.100.100.5'', interface_index = 2,
          prev_stats = [(''in-octets'', ''5000''), (''out-octets'', ''700'')],
          prev_timestamp = Some 10\<rparr>" 10 10
        "[(''in-octets'', ''6000''), (''out-octets'', ''900'')]"]
  by simp

text \<open>
  Claim C3 as stated does not hold. The first call on a fresh monitor does not return
  \<^verbatim>\<open>None\<close>: it returns the zero rate, which the loop then writes as a traffic-rate record.
\<close>

theorem first_sample_counterexample:
  "calculate_traffic_rate
     \<lparr>target = ''172.100.100.5'', interface_index = 2, prev_stats = [],
      prev_timestamp = None\<rparr>
     [(''in-octets'', ''1000''), (''out-octets'', ''40'')] 100
   = Inr (Some [(''in-bps'', ''0''), (''out-bps'', ''0'')],
          \<lparr>target = ''172.100.100.5'', interface_index = 2,
           prev_stats = [(''in-octets'', ''1000''), (''out-octets'', ''40'')],
           prev_timestamp = Some 100\<rparr>)"
  by (simp add: calculate_traffic_rate_def dict_truthy_def float_truthy_def zero_rate_def
        Let_def)

text \<open>
  Claim C3, amended. The first call on a fresh monitor records the sample and returns the zero
  rate (not \<^verbatim>\<open>None\<close>). The second call returns the computed rate when the first sample is a
  non-empty dict, the first clock reading is not \<open>0\<close>, the computed \<open>dt\<close> is positive and the
  octet counters of both samples are integers; only a quotient outside the double range makes
  it raise instead.
\<close>

theorem first_sample_zero_rate_then_computed:
  assumes "prev_stats self = []" and "prev_timestamp self = None"
    and "s1 \<noteq> []" and "t1 \<noteq> 0" and "0 < float_sub t2 t1"
    and "octet_diff s2 s1 ''in-octets'' = Inr din"
    and "octet_diff s2 s1 ''out-octets'' = Inr dout"
  shows "calculate_traffic_rate self s1 t1 =
           Inr (Some [(''in-bps'', ''0''), (''out-bps'', ''0'')],
                self\<lparr>prev_stats := s1, prev_timestamp := Some t1\<rparr>)
         \<and> calculate_traffic_rate (self\<lparr>prev_stats := s1, prev_timestamp := Some t1\<rparr>) s2 t2 =
           (case bps din (float_sub t2 t1) of
              Inl e \<Rightarrow> Inl e
            | Inr r_in \<Rightarrow>
               (case bps dout (float_sub t2 t1) of
                  Inl e \<Rightarrow> Inl e
                | Inr r_out \<Rightarrow>
                   Inr (Some [(''in-bps'', r_in), (''out-bps'', r_out)],
                        self\<lparr>prev_stats := s2, prev_timestamp := Some t2\<rparr>)))"
proof -
  have "calculate_traffic_rate self s1 t1 =
          Inr (Some zero_rate, self\<lparr>prev_stats := s1, prev_timestamp := Some t1\<rparr>)"
    using assms(1) by (simp add: calculate_traffic_rate_no_rate)
  moreover have upd: "self\<lparr>prev_stats := s1, prev_timestamp := Some t1\<rparr>
                        \<lparr>prev_stats := s2, prev_timestamp := Some t2\<rparr>
                      = self\<lparr>prev_stats := s2, prev_timestamp := Some t2\<rparr>"
    by simp
  have "calculate_traffic_rate (self\<lparr>prev_stats := s1, prev_timestamp := Some t1\<rparr>) s2 t2 =
           (case bps din (float_sub t2 t1) of
              Inl e \<Rightarrow> Inl e
            | Inr r_in \<Rightarrow>
               (case bps dout (float_sub t2 t1) of
                  Inl e \<Rightarrow> Inl e
                | Inr r_out \<Rightarrow>
                   Inr (Some [(''in-bps'', r_in), (''out-bps'', r_out)],
                        self\<lparr>prev_stats := s1, prev_timestamp := Some t1\<rparr>
                          \<lparr>prev_stats := s2, prev_timestamp := Some t2\<rparr>)))"
    using assms(3-7) by (intro calculate_traffic_rate_computed) simp_all
  then have "calculate_traffic_rate (self\<lparr>prev_stats := s1, prev_timestamp := Some t1\<rparr>) s2 t2 =
           (case bps din (float_sub t2 t1) of
              Inl e \<Rightarrow> Inl e
            | Inr r_in \<Rightarrow>
               (case bps dout (float_sub t2 t1) of
                  Inl e \<Rightarrow> Inl e
                | Inr r_out \<Rightarrow>
                   Inr (Some [(''in-bps'', r_in), (''out-bps'', r_out)],
                        self\<lparr>prev_stats := s2, prev_timestamp := Some t2\<rparr>)))"
    unfolding upd .
  ultimately show ?thesis by (simp only: zero_rate_def simp_thms)
qed

text \<open>
  Claim C3, amended: the theorem at two samples five seconds apart, 8000 in-octets more in the
  second one.
\<close>

theorem first_sample_zero_rate_then_computed_witness:
  "calculate_traffic_rate
     \<lparr>target = ''172.100.100.5'', interface_index = 2, prev_stats = [],
      prev_timestamp = None\<rparr>
     [(''in-octets'', ''0''), (''out-octets'', ''40'')] 100
   = Inr (Some [(''in-bps'', ''0''), (''out-bps'', ''0'')],
          \<lparr>target = ''172.100.100.5'', interface_index = 2,
           prev_stats = [(''in-octets'', ''0''), (''out-octets'', ''40'')],
           prev_timestamp = Some 100\<rparr>)
   \<and> calculate_traffic_rate
     \<lparr>target = ''172.100.100.5'', interface_index = 2,
      prev_stats = [(''in-octets'', ''0''), (''out-octets'', ''40'')],
      prev_timestamp = Some 100\<rparr>
     [(''in-octets'', ''8000''), (''out-octets'', ''40'')] 105
   = Inr (Some [(''in-bps'', ''12800''), (''out-bps'', ''0'')],
          \<lparr>target = ''172.100.100.5'', interface_index = 2,
           prev_stats = [(''in-octets'', ''8000''), (''out-octets'', ''40'')],
           prev_timestamp = Some 105\<rparr>)"
proof -
  let ?s1 = "[(''in-octets'', ''0''), (''out-octets'', ''40'')]"
  let ?s2 = "[(''in-octets'', ''8000''), (''out-octets'', ''40'')]"
  have dt: "float_sub 105 100 = 5" by (simp add: float_eval)
  have i: "octet_diff ?s2 ?s1 ''in-octets'' = Inr 8000"
    by (simp add: octet_diff_def dict_item_def int_of_str_def py_int_eval)
  have out: "octet_diff ?s2 ?s1 ''out-octets'' = Inr 0"
    by (simp add: octet_diff_def dict_item_def int_of_str_def py_int_eval)
  have bi: "bps 8000 5 = Inr ''12800''"
    by (simp add: bps_def float_eval py_trunc_def py_str_eval)
  have bo: "bps 0 5 = Inr ''0''"
    by (simp add: bps_def float_eval py_trunc_def py_str_eval)
  from first_sample_zero_rate_then_computed
    [of "\<lparr>target = ''172.100.100.5'', interface_index = 2, prev_stats = [],
          prev_timestamp = None\<rparr>" ?s1 100 105 ?s2 8000 0, OF _ _ _ _ _ i out]
  show ?thesis by (simp add: dt bi bo)
qed

section \<open>Claims about the poll loop and the envelope\<close>



text \<open>
  Claim C8. Every counter of a sample is put into the envelope as the string it was read as,
  never as a number. So whenever the serialiser and the reader round-trip JSON trees
  (\<^verbatim>\<open>json.dump\<close> and a generic reader are library code, taken here as parameters), the
  line read back shows each counter as a string equal to the original decimal text. This holds
  for \<^verbatim>\<open>format_output\<close> of the SNMP scripts and for the statistics block of
  \<^verbatim>\<open>if-stats-netconf.py\<close>.
\<close>

theorem counters_round_trip_as_strings:
  fixes dumps :: "json \<Rightarrow> 'line" and loads :: "'line \<Rightarrow> json option"
  assumes "\<forall>j. loads (dumps j) = Some j"
  shows "(distinct (map fst data) \<and> (k, v) \<in> set data \<longrightarrow>
            (\<exists>p. loads (dumps (format_output fmt self block data ts)) = Some p
                 \<and> reported p (''IF-MIB:interface/'' @ block) k = Some (JString v)))
         \<and> (full_format_output fmt' source iface stats rate ts' = Inr r
            \<and> (f, key) \<in> set
           [(''in-octets'', ''in-octets''), (''out-octets'', ''out-octets''),
            (''in-packets'', ''in-packets''), (''out-packets'', ''out-packets''),
            (''in-unicast-packets'', ''in-unicast-pkts''),
            (''out-unicast-packets'', ''out-unicast-pkts''),
            (''in-multicast-packets'', ''in-multicast-pkts''),
            (''out-multicast-packets'', ''out-multicast-pkts''),
            (''in-broadcast-packets'', ''in-broadcast-pkts''),
            (''out-broadcast-packets'', ''out-broadcast-pkts''),
            (''in-error-packets'', ''in-errors''), (''out-error-packets'', ''out-errors''),
            (''in-discarded-packets'', ''in-discards''),
            (''out-discarded-packets'', ''out-discards'')] \<longrightarrow>
            (\<exists>p. loads (dumps r) = Some p
                 \<and> reported p ''openconfig-interfaces:interface/statistics'' f
                     = Some (JString (dict_get stats key ''0''))))"
  using assms format_output_reported [of data k v fmt self block ts]
    full_format_output_reported [of fmt' source iface stats rate ts' r f]
    statistics_data_field [of f key stats]
  by simp

text \<open>
  Claim C8 at a sample whose in-octets counter is \<open>2^64 - 1\<close>, far above \<open>2^53\<close>: it is
  read back as the same nineteen-digit string, from both envelopes.
\<close>

theorem counters_round_trip_as_strings_witness:
  "reported
     (format_output (\<lambda>t. ''t'')
        \<lparr>target = ''172.100.100.5'', interface_index = 2, prev_stats = [],
         prev_timestamp = None\<rparr>
        ''statistics''
        [(''in-octets'', ''18446744073709551615''), (''out-octets'', ''9007199254740993'')] 100)
     ''IF-MIB:interface/statistics'' ''in-octets''
   = Some (JString ''18446744073709551615'')
   \<and> (\<exists>r. full_format_output (\<lambda>t. ''t'') ''172.100.100.7:830'' ''Ethernet1''
             [(''in-octets'', ''18446744073709551615''), (''out-octets'', ''9007199254740993'')]
             [(''in-bps'', ''0''), (''out-bps'', ''0'')] 100 = Inr r
          \<and> reported r ''openconfig-interfaces:interface/statistics'' ''in-octets''
              = Some (JString ''18446744073709551615''))"
proof -
  let ?stats = "[(''in-octets'', ''18446744073709551615''),
                 (''out-octets'', ''9007199254740993'')]"
  let ?rate = "[(''in-bps'', ''0''), (''out-bps'', ''0'')]"
  obtain r where r: "full_format_output (\<lambda>t. ''t'') ''172.100.100.7:830'' ''Ethernet1''
                       ?stats ?rate 100 = Inr r"
    by (simp add: full_format_output_def dict_item_def)
  have rt: "\<forall>j :: json. Some ((\<lambda>j. j) j) = Some j" by simp
  from counters_round_trip_as_strings [of Some "\<lambda>j. j", OF rt,
      of ?stats "''in-octets''" "''18446744073709551615''" "\<lambda>t. ''t''"
         "\<lparr>target = ''172.100.100.5'', interface_index = 2, prev_stats = [],
           prev_timestamp = None\<rparr>" "''statistics''" 100
         "\<lambda>t. ''t''" "''172.100.100.7:830''" "''Ethernet1''" ?stats ?rate 100 r
         "''in-octets''" "''in-octets''"] r
  show ?thesis by (simp add: dict_get_def)
qed

section \<open>Claims about the adapters and the resolvers\<close>

text \<open>
  Claim C4 as stated does not hold for the NETCONF resolver of \<^verbatim>\<open>if-stats-netconf.py\<close>.
  OpenConfig returns a sample with 0 in-octets and 5000 out-octets, so not both are zero; the
  IETF adapter is invoked all the same, and as it declines the resolver returns the zero-filled
  sample instead of the OpenConfig one.
\<close>

theorem fallback_order_counterexample:
  "full_get_interface_stats ''Ethernet1''
     (Some [(''model'', ''openconfig''), (''in-octets'', ''0''), (''out-octets'', ''5000'')])
     None
   = (Inr [(''interface-name'', ''Ethernet1''), (''model'', ''no-data''),
           (''in-octets'', ''0''), (''out-octets'', ''0''),
           (''in-packets'', ''0''), (''out-packets'', ''0'')],
      [OpenConfig, Ietf])"
  by (simp add: full_get_interface_stats_def nc_truthy_def int_get_def int_of_str_def
        py_int_eval full_no_data_def)

text \<open>
  Claim C4, amended. The SNMP resolver reads the two high-capacity octet counters first and
  reads the legacy 32-bit counters if and only if both reads came back as \<^verbatim>\<open>"0"\<close>. The NETCONF
  resolver of \<^verbatim>\<open>if-stats-netconf.py\<close> calls OpenConfig first and invokes IETF if and only if
  OpenConfig returned nothing or a sample whose in-octets is 0, whatever its out-octets; when
  IETF is not invoked, the sample returned is the OpenConfig one.
\<close>

theorem fallback_order:
  "(''.1.3.6.1.2.1.2.2.1.10'' \<in> set (snd (get_interface_stats self sess)) \<longleftrightarrow>
      get_snmp_value self sess ifHCInOctets = Inr ''0''
      \<and> get_snmp_value self sess ifHCOutOctets = Inr ''0'')
   \<and> take 2 (snd (get_interface_stats self sess)) = [ifHCInOctets, ifHCOutOctets]
   \<and> (Ietf \<in> set (snd (full_get_interface_stats iface oc ietf)) \<longleftrightarrow>
        \<not> nc_truthy oc \<or> int_get (the oc) ''in-octets'' = Inr 0)
   \<and> hd (snd (full_get_interface_stats iface oc ietf)) = OpenConfig
   \<and> (Ietf \<notin> set (snd (full_get_interface_stats iface oc ietf))
        \<and> fst (full_get_interface_stats iface oc ietf) = Inr stats \<longrightarrow> oc = Some stats)"
proof -
  have "take 2 (snd (get_interface_stats self sess)) = [ifHCInOctets, ifHCOutOctets]"
    by (simp add: get_interface_stats_asked)
  moreover have "hd (snd (full_get_interface_stats iface oc ietf)) = OpenConfig"
    by (simp add: full_get_interface_stats_def Let_def split: sum.splits)
  moreover have "Ietf \<notin> set (snd (full_get_interface_stats iface oc ietf))
        \<and> fst (full_get_interface_stats iface oc ietf) = Inr stats \<longrightarrow> oc = Some stats"
    by (cases oc) (auto simp: full_get_interface_stats_def Let_def nc_truthy_def
          split: sum.splits if_splits)
  ultimately show ?thesis
    using legacy_asked_iff [of self sess] ietf_called_iff [of iface oc ietf] by blast
qed

text \<open>
  Claim C4, amended: a device without high-capacity counters makes the SNMP resolver read the
  legacy ones; an OpenConfig sample with 7 in-octets keeps IETF from being invoked, and a
  missing OpenConfig sample invokes it.
\<close>

theorem fallback_order_witness:
  "''.1.3.6.1.2.1.2.2.1.10'' \<in> set (snd (get_interface_stats
       \<lparr>target = ''172.100.100.5'', interface_index = 2, prev_stats = [],
        prev_timestamp = None\<rparr>
       (\<lambda>oid. Returns ''NOSUCHINSTANCE'')))
   \<and> Ietf \<notin> set (snd (full_get_interface_stats ''Ethernet1''
        (Some [(''model'', ''openconfig''), (''in-octets'', ''7''), (''out-octets'', ''0'')])
        None))
   \<and> Ietf \<in> set (snd (full_get_interface_stats ''Ethernet1'' None None))"
proof -
  let ?self = "\<lparr>target = ''172.100.100.5'', interface_index = 2, prev_stats = [],
                 prev_timestamp = None\<rparr>"
  let ?oc = "Some [(''model'', ''openconfig''), (''in-octets'', ''7''), (''out-octets'', ''0'')]"
  from fallback_order [of ?self "\<lambda>oid. Returns ''NOSUCHINSTANCE''" "''Ethernet1''" ?oc None]
    fallback_order [of ?self "\<lambda>oid. Returns ''NOSUCHINSTANCE''" "''Ethernet1''" None None]
  show ?thesis
    by (simp add: get_snmp_value_def nc_truthy_def int_get_def int_of_str_def py_int_eval)
qed

text \<open>
  Claim C5 fails on the IETF parser of \<^verbatim>\<open>if-stats-netconf-v2.py\<close>. The reply carries 5
  unicast, 3 multicast and 2 broadcast packets in, and 7, 1 and 1 out; the parser reports
  in-packets \<^verbatim>\<open>"5"\<close> and out-packets \<^verbatim>\<open>"7"\<close>, the unicast counts alone, where the sums are
  10 and 9.
\<close>

theorem ietf_total_is_unicast_only:
  "parse_ietf_stats \<lparr>interface = ''Ethernet1'', nc_prev_stats = [], prev_time = None\<rparr>
     (Inr (Element ietf_ns ''interfaces-state''
        [Element ietf_ns ''interface''
          [Element ietf_ns ''name'' [Text ''Ethernet1''],
           Element ietf_ns ''statistics''
            [Element ietf_ns ''in-octets'' [Text ''1000''],
             Element ietf_ns ''in-unicast-pkts'' [Text ''5''],
             Element ietf_ns ''in-multicast-pkts'' [Text ''3''],
             Element ietf_ns ''in-broadcast-pkts'' [Text ''2''],
             Element ietf_ns ''out-octets'' [Text ''2000''],
             Element ietf_ns ''out-unicast-pkts'' [Text ''7''],
             Element ietf_ns ''out-multicast-pkts'' [Text ''1''],
             Element ietf_ns ''out-broadcast-pkts'' [Text ''1'']]]]))
   = Inr (Some [(''interface-name'', Some ''Ethernet1''), (''model'', Some ''ietf''),
                (''in-octets'', Some ''1000''), (''out-octets'', Some ''2000''),
                (''in-packets'', Some ''5''), (''out-packets'', Some ''7'')])"
  by (simp add: parse_ietf_stats_def catch_all_def parse_ietf_body_def first_item_def
        dom_getElementsByTagNameNS_def getElementsByTagNameNS_def val_def ietf_ns_def)




text \<open>
  Claim C9 fails on the SNMP adapters. In \<^verbatim>\<open>if-stats-snmp-v3.py\<close>, \<^verbatim>\<open>get_snmp_value\<close> lets
  every exception other than EasySNMPError escape. In \<^verbatim>\<open>if-stats-snmp-v2.py\<close>, a device
  that answers \<^verbatim>\<open>NOSUCHOBJECT\<close> makes \<^verbatim>\<open>get_interface_stats\<close> raise ValueError.
\<close>

theorem fetch_raises:
  "get_snmp_value_v3
     \<lparr>target = ''172.100.100.5'', interface_index = 2, prev_stats = [], prev_timestamp = None\<rparr>
     (\<lambda>oid. Raises OtherException) ifHCInOctets = Inl OtherException
   \<and> fst (get_interface_stats
       \<lparr>target = ''172.100.100.5'', interface_index = 2, prev_stats = [],
        prev_timestamp = None\<rparr>
       (\<lambda>oid. Returns ''NOSUCHOBJECT'')) = Inl ValueError"
  by (simp add: get_snmp_value_v3_def get_interface_stats_def get_snmp_value_def
        hc_packet_oids_def add_totals_def packet_total_def int_get_def int_of_str_def
        py_int_eval dict_set_def)

text \<open>
  Claim C9: at the two inputs above neither call returns a value, whichever exception it is
  that escapes.
\<close>

theorem fetch_raises_witness:
  "(\<exists>e. get_snmp_value_v3
          \<lparr>target = ''172.100.100.5'', interface_index = 2, prev_stats = [],
           prev_timestamp = None\<rparr>
          (\<lambda>oid. Raises OtherException) ifHCInOctets = Inl e)
   \<and> (\<exists>e. fst (get_interface_stats
          \<lparr>target = ''172.100.100.5'', interface_index = 2, prev_stats = [],
           prev_timestamp = None\<rparr>
          (\<lambda>oid. Returns ''NOSUCHOBJECT'')) = Inl e)"
  using fetch_raises by simp

end
